theory Spec2Isabelle
  imports Complex_Main
begin

section \<open>Tensors as nested lists\<close>

text \<open>
  The layers of \<^verbatim>\<open>src/layers.py\<close> compute on torch tensors of rank one, two and three.
  A tensor is a nested list of reals here, outermost axis first.  Arithmetic is over the
  reals: rounding is not part of the model, and the places where torch produces a
  non-finite number instead of raising (division by zero, the logarithm of zero) are
  separate outcomes of the functions below.
\<close>

type_synonym vec = "real list"
type_synonym mat = "real list list"
type_synonym tensor3 = "real list list list"

datatype error =
    AttributeError    \<comment> \<open>an attribute that no statement has assigned yet\<close>
  | IndexError        \<comment> \<open>a row index beyond the first axis\<close>
  | ShapeError        \<comment> \<open>torch's RuntimeError for operands that do not broadcast\<close>
  | AmbiguousBool     \<comment> \<open>torch's RuntimeError for the truth value of a tensor that has not one element\<close>
  | LinAlgError       \<comment> \<open>the Cholesky factorisation met a pivot that is not positive\<close>
  | ZeroDivisor       \<comment> \<open>no exception: the result holds inf or nan after a division by zero\<close>
  | NanDivisor        \<comment> \<open>no exception: the divisor is the square root of a negative number\<close>
  | InfiniteLog       \<comment> \<open>no exception: the logarithm of zero makes the result infinite\<close>

definition dim1 :: "'a list list \<Rightarrow> nat" where
  "dim1 t = (case t of [] \<Rightarrow> 0 | r # _ \<Rightarrow> length r)"

definition dim2 :: "'a list list list \<Rightarrow> nat" where
  "dim2 t = (case t of [] \<Rightarrow> 0 | r # _ \<Rightarrow> dim1 r)"

definition is_mat :: "nat \<Rightarrow> nat \<Rightarrow> mat \<Rightarrow> bool" where
  "is_mat R C A \<longleftrightarrow> length A = R \<and> list_all (\<lambda>r. length r = C) A"

text \<open>Broadcasting: an axis of size one is read at index 0 whatever the index asked for.\<close>

definition bget :: "'a list \<Rightarrow> nat \<Rightarrow> 'a" where
  "bget xs i = (if length xs = 1 then xs ! 0 else xs ! i)"

definition bcompat :: "nat \<Rightarrow> nat \<Rightarrow> bool" where
  "bcompat a b \<longleftrightarrow> a = b \<or> a = 1 \<or> b = 1"

definition bdim :: "nat \<Rightarrow> nat \<Rightarrow> nat" where
  "bdim a b = (if a = 1 then b else a)"

definition sum_all :: "mat \<Rightarrow> real" where
  "sum_all A = sum_list (map sum_list A)"

definition badd2 :: "mat \<Rightarrow> mat \<Rightarrow> error + mat" where
  "badd2 A B =
     (let R1 = length A; C1 = dim1 A; R2 = length B; C2 = dim1 B in
      if bcompat R1 R2 \<and> bcompat C1 C2
      then Inr (map (\<lambda>r. map (\<lambda>c. bget (bget A r) c + bget (bget B r) c)
                  [0..<bdim C1 C2]) [0..<bdim R1 R2])
      else Inl ShapeError)"

subsection \<open>Matrix algebra used to state the properties\<close>

definition mat_transpose :: "mat \<Rightarrow> mat" where
  "mat_transpose A = map (\<lambda>j. map (\<lambda>i. A ! i ! j) [0..<length A]) [0..<dim1 A]"

definition mat_mul :: "mat \<Rightarrow> mat \<Rightarrow> mat" where
  "mat_mul A B =
     map (\<lambda>i. map (\<lambda>j. (\<Sum>k\<leftarrow>[0..<length B]. A ! i ! k * B ! k ! j)) [0..<dim1 B])
       [0..<length A]"


definition quad_form :: "mat \<Rightarrow> vec \<Rightarrow> real" where
  "quad_form A v =
     (\<Sum>i\<leftarrow>[0..<length v]. \<Sum>j\<leftarrow>[0..<length v]. v ! i * A ! i ! j * v ! j)"

section \<open>The data model\<close>

text \<open>A \<^verbatim>\<open>torch.nn.Parameter\<close>: a tensor and its trainable flag.\<close>

record 'a parameter =
  data :: 'a
  requires_grad :: bool

text \<open>
  The generative function lives in \<^verbatim>\<open>src/generative_functions.py\<close>, which is not
  part of the sources at hand; the layers use three things of it, taken as parameters: the
  call that draws the samples at the given locations (one draw per call of the layer, so a
  function of the locations), the value of its \<^verbatim>\<open>KL()\<close> and the effect of
  \<^verbatim>\<open>freeze_parameters()\<close>.
\<close>

record genf =
  sample :: "mat \<Rightarrow> tensor3"
  prior_KL :: real
  parameters_frozen :: bool

text \<open>
  \<^verbatim>\<open>class Layer\<close> and the attributes that the three constructors assign under the
  same names.  An attribute that a constructor does not assign is absent from the
  instance: \<^verbatim>\<open>generative_function\<close> is \<open>None\<close> then, and reading it raises.
  The tags \<^verbatim>\<open>dtype\<close> and \<^verbatim>\<open>device\<close> do not enter any computation and are left out.
\<close>

record layer =
  input_dim :: nat
  freeze :: bool

record var_layer = layer +
  add_prior_regularization :: bool
  q_mu :: "mat parameter"
  mean_function :: "(mat \<Rightarrow> mat) option"
  output_dim :: nat
  generative_function :: "genf option"
  log_layer_noise :: "vec parameter option"
  q_sqrt_tri :: "mat parameter"

record vip_layer = var_layer +
  num_coeffs :: nat

section \<open>The packed triangular factor\<close>

text \<open>
  \<^verbatim>\<open>torch.tril_indices(n, n)\<close>: the positions of the lower triangle, row after row;
  \<^verbatim>\<open>li, lj\<close> are the first and second components.
\<close>

definition tril_indices :: "nat \<Rightarrow> (nat \<times> nat) list" where
  "tril_indices n = concat (map (\<lambda>i. map (\<lambda>j. (i, j)) [0..<Suc i]) [0..<n])"

text \<open>
  \<^verbatim>\<open>np.tile((np.eye(K) * v)[:, :, None], [1, 1, D])[li, lj]\<close>, the value the
  constructors give to \<^verbatim>\<open>q_sqrt_tri\<close>.
\<close>

definition initial_q_sqrt_tri :: "nat \<Rightarrow> nat \<Rightarrow> real \<Rightarrow> mat" where
  "initial_q_sqrt_tri K D v =
     (let q_sqrt = map (\<lambda>i. map (\<lambda>j. replicate D ((if i = j then 1 else 0) * v)) [0..<K]) [0..<K]
      in map (\<lambda>(i, j). q_sqrt ! i ! j) (tril_indices K))"

text \<open>
  \<^verbatim>\<open>q_sqrt = torch.zeros((K, K, D)); q_sqrt[li, lj] = self.q_sqrt_tri\<close>: the rows of the
  packed array are written to the positions of the lower triangle, one after the other.
\<close>

definition unpack :: "nat \<Rightarrow> nat \<Rightarrow> mat \<Rightarrow> error + tensor3" where
  "unpack K D tri =
     (if is_mat (length (tril_indices K)) D tri
      then Inr (fold (\<lambda>((i, j), row) q. q[i := (q ! i)[j := row]])
                  (zip (tril_indices K) tri)
                  (replicate K (replicate K (replicate D 0))))
      else Inl ShapeError)"

text \<open>\<^verbatim>\<open>np.cumsum(np.arange(1, K + 1)) - 1\<close>.\<close>

fun cumsum_from :: "nat \<Rightarrow> nat list \<Rightarrow> nat list" where
  "cumsum_from acc [] = []"
| "cumsum_from acc (x # xs) = (acc + x) # cumsum_from (acc + x) xs"

definition cumsum :: "nat list \<Rightarrow> nat list" where
  "cumsum xs = cumsum_from 0 xs"

definition diag_indexes :: "nat \<Rightarrow> nat list" where
  "diag_indexes K = map (\<lambda>c. c - 1) (cumsum [1..<Suc K])"

text \<open>The slice \<^verbatim>\<open>q_sqrt[:, :, d]\<close> of a factor and the vector \<^verbatim>\<open>phi[:, n, d]\<close>.\<close>

definition slice_d :: "tensor3 \<Rightarrow> nat \<Rightarrow> mat" where
  "slice_d q d = map (map (\<lambda>v. bget v d)) q"

definition column_nd :: "tensor3 \<Rightarrow> nat \<Rightarrow> nat \<Rightarrow> vec" where
  "column_nd phi n d = map (\<lambda>p. bget (p ! n) d) phi"

section \<open>VIPLayer\<close>

definition VIPLayer_init ::
  "genf \<Rightarrow> nat \<Rightarrow> nat \<Rightarrow> nat \<Rightarrow> bool \<Rightarrow> real option \<Rightarrow> real \<Rightarrow> real \<Rightarrow> (mat \<Rightarrow> mat) option
     \<Rightarrow> vip_layer" where
  "VIPLayer_init generative_fn num_regression_coeffs in_dim out_dim add_prior log_noise
       q_sqrt_initial_value q_mu_initial_value mean_fn =
     \<lparr> input_dim = in_dim, freeze = False,
       add_prior_regularization = add_prior,
       q_mu = \<lparr> data = replicate num_regression_coeffs (replicate out_dim (1 * q_mu_initial_value)),
                requires_grad = True \<rparr>,
       mean_function = mean_fn,
       output_dim = out_dim,
       generative_function = Some generative_fn,
       log_layer_noise =
         (case log_noise of None \<Rightarrow> None
          | Some v \<Rightarrow> Some \<lparr> data = replicate out_dim (1 * v), requires_grad = True \<rparr>),
       q_sqrt_tri = \<lparr> data = initial_q_sqrt_tri num_regression_coeffs out_dim q_sqrt_initial_value,
                      requires_grad = True \<rparr>,
       num_coeffs = num_regression_coeffs \<rparr>"

text \<open>
  \<^verbatim>\<open>torch.sqrt(torch.tensor(S - 1))\<close>, the divisor of the centred samples.  For \<open>S = 1\<close>
  it is zero and for \<open>S = 0\<close> it is the root of \<open>-1\<close>; torch raises in neither case and
  goes on with inf and nan.
\<close>

definition phi_divisor :: "nat \<Rightarrow> error + real" where
  "phi_divisor S =
     (if real S - 1 < 0 then Inl NanDivisor
      else if real S - 1 = 0 then Inl ZeroDivisor
      else Inr (sqrt (real S - 1)))"

text \<open>\<^verbatim>\<open>m = torch.mean(f, dim=0)\<close> and \<^verbatim>\<open>phi = (f - m) / c\<close>.\<close>

definition sample_mean :: "tensor3 \<Rightarrow> mat" where
  "sample_mean f =
     map (\<lambda>n. map (\<lambda>d. (\<Sum>s\<leftarrow>[0..<length f]. f ! s ! n ! d) / real (length f)) [0..<dim2 f])
       [0..<dim1 f]"

definition centred :: "tensor3 \<Rightarrow> real \<Rightarrow> tensor3" where
  "centred f c =
     (let m = sample_mean f in
      map (\<lambda>s. map (\<lambda>n. map (\<lambda>d. (f ! s ! n ! d - m ! n ! d) / c) [0..<dim2 f]) [0..<dim1 f])
        [0..<length f])"

text \<open>\<^verbatim>\<open>m.squeeze(axis=0) + torch.einsum("snd,sd->nd", phi, self.q_mu)\<close>.\<close>

definition regression_mean :: "mat \<Rightarrow> tensor3 \<Rightarrow> mat \<Rightarrow> nat \<Rightarrow> nat \<Rightarrow> nat \<Rightarrow> mat" where
  "regression_mean m phi qmu S N Dout =
     map (\<lambda>n. map (\<lambda>d. bget (m ! n) d
                  + (\<Sum>s\<leftarrow>[0..<S]. bget (phi ! s ! n) d * bget (qmu ! s) d))
       [0..<Dout]) [0..<N]"

text \<open>
  \<^verbatim>\<open>K = torch.einsum("ind, sid -> snd", phi, q_sqrt); K = torch.sum(K * K, dim=0)\<close>.
\<close>

definition regression_var :: "tensor3 \<Rightarrow> tensor3 \<Rightarrow> nat \<Rightarrow> nat \<Rightarrow> nat \<Rightarrow> mat" where
  "regression_var phi q S N Dout =
     (let K = map (\<lambda>s. map (\<lambda>n. map (\<lambda>d.
                  (\<Sum>i\<leftarrow>[0..<S]. bget (phi ! i ! n) d * bget (q ! s ! i) d))
                [0..<Dout]) [0..<N]) [0..<S]
      in map (\<lambda>n. map (\<lambda>d. (\<Sum>s\<leftarrow>[0..<S]. K ! s ! n ! d * K ! s ! n ! d)) [0..<Dout]) [0..<N])"

text \<open>
  \<^verbatim>\<open>if self.log_layer_noise is not None: K = K + torch.exp(self.log_layer_noise)\<close>, the
  noise along the last axis of a variance with \<open>R\<close> rows and \<open>C\<close> columns.
\<close>

definition add_noise :: "vec parameter option \<Rightarrow> mat \<Rightarrow> nat \<Rightarrow> nat \<Rightarrow> mat" where
  "add_noise noise K R C =
     (case noise of
        None \<Rightarrow> K
      | Some p \<Rightarrow> map (\<lambda>r. map (\<lambda>c. bget (K ! r) c + exp (bget (data p) c)) [0..<C]) [0..<R])"

text \<open>
  \<^verbatim>\<open>if self.mean_function is not None: mean = mean + self.mean_function(X)\<close>.
\<close>

definition add_mean_function :: "(mat \<Rightarrow> mat) option \<Rightarrow> mat \<Rightarrow> mat \<Rightarrow> error + mat" where
  "add_mean_function mf mean X =
     (case mf of None \<Rightarrow> Inr mean | Some h \<Rightarrow> badd2 mean (h X))"

text \<open>
  \<^verbatim>\<open>VIPLayer.forward\<close>.  The exceptions come first, in the order of the source; the
  division by a zero divisor raises nothing in torch, so it decides the outcome only
  when no statement raises.  The sample axis of \<^verbatim>\<open>f\<close> has to be \<^verbatim>\<open>num_coeffs\<close> long
  (torch would also broadcast a sample axis of length one); the last axis broadcasts
  against \<^verbatim>\<open>output_dim\<close>.
\<close>

definition VIPLayer_forward ::
  "vip_layer \<Rightarrow> mat \<Rightarrow> bool \<Rightarrow> error + (mat \<times> mat \<times> tensor3 option)" where
  "VIPLayer_forward self X return_prior_samples =
     (case generative_function self of
        None \<Rightarrow> Inl AttributeError
      | Some g \<Rightarrow>
         (let f = sample g X;
              S = num_coeffs self;
              N = dim1 f;
              Dout = bdim (dim2 f) (output_dim self);
              m = sample_mean f;
              phi = centred f (sqrt (real S - 1))
          in
          if length f \<noteq> S \<or> \<not> bcompat (dim2 f) (output_dim self) then Inl ShapeError
          else
            (case unpack S (output_dim self) (data (q_sqrt_tri self)) of
               Inl e \<Rightarrow> Inl e
             | Inr q_sqrt \<Rightarrow>
                (case add_mean_function (mean_function self)
                        (regression_mean m phi (data (q_mu self)) S N Dout) X of
                   Inl e \<Rightarrow> Inl e
                 | Inr mean \<Rightarrow>
                    (case phi_divisor S of
                       Inl e \<Rightarrow> Inl e
                     | Inr c \<Rightarrow>
                        Inr (mean,
                             add_noise (log_layer_noise self)
                               (regression_var phi q_sqrt S N Dout) N Dout,
                             if return_prior_samples then Some f else None))))))"


text \<open>
  The truth value of a tensor, as \<^verbatim>\<open>if self.log_layer_noise:\<close> asks for it: a tensor of
  one element is true when the element is not zero, and any other tensor raises.
\<close>

definition tensor_bool :: "vec \<Rightarrow> error + bool" where
  "tensor_bool t = (case t of [x] \<Rightarrow> Inr (x \<noteq> 0) | _ \<Rightarrow> Inl AmbiguousBool)"

text \<open>
  \<^verbatim>\<open>freeze_posterior\<close>, the same text in the three classes.  The result is the exception
  raised, if any, and the state the call leaves behind.
\<close>

definition freeze_posterior :: "'a var_layer_scheme \<Rightarrow> error option \<times> 'a var_layer_scheme" where
  "freeze_posterior self =
     (let s1 = self\<lparr> q_mu := (q_mu self)\<lparr> requires_grad := False \<rparr> \<rparr>;
          s2 = s1\<lparr> q_sqrt_tri := (q_sqrt_tri s1)\<lparr> requires_grad := False \<rparr> \<rparr>
      in
      (case log_layer_noise s2 of
         None \<Rightarrow> (None, s2)
       | Some p \<Rightarrow>
          (case tensor_bool (data p) of
             Inl e \<Rightarrow> (Some e, s2)
           | Inr b \<Rightarrow>
              if b then (None, s2\<lparr> log_layer_noise := Some (p\<lparr> requires_grad := False \<rparr>) \<rparr>)
              else (None, s2))))"

text \<open>\<^verbatim>\<open>freeze_prior\<close>, the same text in the three classes.\<close>

definition freeze_prior :: "'a var_layer_scheme \<Rightarrow> error option \<times> 'a var_layer_scheme" where
  "freeze_prior self =
     (case generative_function self of
        None \<Rightarrow> (Some AttributeError, self)
      | Some g \<Rightarrow> (None, self\<lparr> generative_function := Some (g\<lparr> parameters_frozen := True \<rparr>) \<rparr>))"

section \<open>Linear algebra of the library\<close>

text \<open>
  \<^verbatim>\<open>torch.linalg.cholesky\<close> and \<^verbatim>\<open>torch.linalg.solve_triangular\<close> are library
  routines; they are modelled by the textbook recurrences.  The factorisation reads the
  lower triangle only and fails on a pivot that is not positive; a solve reads the
  triangle its \<^verbatim>\<open>upper\<close> flag names.
\<close>

fun chol_offdiag :: "mat \<Rightarrow> vec \<Rightarrow> nat \<Rightarrow> vec" where
  "chol_offdiag Ls a 0 = []"
| "chol_offdiag Ls a (Suc j) =
     (let l = chol_offdiag Ls a j
      in l @ [(a ! j - (\<Sum>k\<leftarrow>[0..<j]. l ! k * Ls ! j ! k)) / Ls ! j ! j])"

fun chol_rows :: "mat \<Rightarrow> nat \<Rightarrow> mat option" where
  "chol_rows A 0 = Some []"
| "chol_rows A (Suc i) =
     (case chol_rows A i of
        None \<Rightarrow> None
      | Some Ls \<Rightarrow>
         (let l = chol_offdiag Ls (A ! i) i;
              d = A ! i ! i - (\<Sum>k\<leftarrow>[0..<i]. l ! k * l ! k)
          in if d \<le> 0 then None else Some (Ls @ [l @ [sqrt d]])))"

definition cholesky :: "mat \<Rightarrow> error + mat" where
  "cholesky A =
     (case chol_rows A (length A) of
        None \<Rightarrow> Inl LinAlgError
      | Some Ls \<Rightarrow> Inr (map (\<lambda>r. r @ replicate (length A - length r) 0) Ls))"

fun cholesky_batch :: "tensor3 \<Rightarrow> error + tensor3" where
  "cholesky_batch [] = Inr []"
| "cholesky_batch (A # As) =
     (case cholesky A of
        Inl e \<Rightarrow> Inl e
      | Inr L \<Rightarrow> (case cholesky_batch As of Inl e \<Rightarrow> Inl e | Inr Ls \<Rightarrow> Inr (L # Ls)))"

text \<open>The first \<open>n\<close> unknowns of \<open>L x = b\<close> for a lower triangular \<open>L\<close>.\<close>

fun forward_subst :: "mat \<Rightarrow> vec \<Rightarrow> nat \<Rightarrow> vec" where
  "forward_subst L b 0 = []"
| "forward_subst L b (Suc j) =
     (let x = forward_subst L b j
      in x @ [(b ! j - (\<Sum>k\<leftarrow>[0..<j]. L ! j ! k * x ! k)) / L ! j ! j])"

text \<open>The last \<open>n\<close> unknowns of \<open>U x = b\<close> for an upper triangular \<open>U\<close>.\<close>

fun back_subst :: "mat \<Rightarrow> vec \<Rightarrow> nat \<Rightarrow> vec" where
  "back_subst U b 0 = []"
| "back_subst U b (Suc n) =
     (let x = back_subst U b n;
          j = length b - Suc n
      in ((b ! j - (\<Sum>k\<leftarrow>[0..<n]. U ! j ! (j + 1 + k) * x ! k)) / U ! j ! j) # x)"

definition tri_solve :: "mat \<Rightarrow> vec \<Rightarrow> bool \<Rightarrow> vec" where
  "tri_solve A b upper =
     (if upper then back_subst A b (length b) else forward_subst A b (length b))"

text \<open>
  \<^verbatim>\<open>solve_triangular(A, B, upper, left)\<close> for one matrix of the batch: \<open>A X = B\<close> when
  \<^verbatim>\<open>left\<close>, column by column, and \<open>X A = B\<close> otherwise, row by row.
\<close>

definition solve_triangular :: "mat \<Rightarrow> mat \<Rightarrow> bool \<Rightarrow> bool \<Rightarrow> mat" where
  "solve_triangular A B upper left =
     (if left
      then map (\<lambda>i. map (\<lambda>c. tri_solve A (map (\<lambda>r. r ! c) B) upper ! i) [0..<dim1 B])
             [0..<length B]
      else map (\<lambda>b. tri_solve (mat_transpose A) b (\<not> upper)) B)"

section \<open>VIPLayerInducing and SparseGP\<close>

text \<open>
  The attributes \<^verbatim>\<open>Lu\<close> and \<^verbatim>\<open>q_sqrt\<close> are assigned by \<^verbatim>\<open>forward\<close> only: they are
  absent from a new instance.
\<close>

record inducing_layer = var_layer +
  num_inducing :: nat
  inducing_points :: "mat parameter"
  Lu :: "tensor3 option"
  q_sqrt :: "tensor3 option"

record sparse_gp = inducing_layer +
  log_lengthscale :: "real parameter"
  log_amplitude :: "real parameter"

definition VIPLayerInducing_init ::
  "genf \<Rightarrow> mat \<Rightarrow> nat \<Rightarrow> nat \<Rightarrow> bool \<Rightarrow> real option \<Rightarrow> real \<Rightarrow> real \<Rightarrow> (mat \<Rightarrow> mat) option
     \<Rightarrow> inducing_layer" where
  "VIPLayerInducing_init generative_fn Z in_dim out_dim add_prior log_noise
       q_sqrt_initial_value q_mu_initial_value mean_fn =
     \<lparr> input_dim = in_dim, freeze = False,
       add_prior_regularization = add_prior,
       q_mu = \<lparr> data = replicate (length Z) (replicate out_dim (1 * q_mu_initial_value)),
                requires_grad = True \<rparr>,
       mean_function = mean_fn,
       output_dim = out_dim,
       generative_function = Some generative_fn,
       log_layer_noise =
         (case log_noise of None \<Rightarrow> None
          | Some v \<Rightarrow> Some \<lparr> data = replicate out_dim (1 * v), requires_grad = True \<rparr>),
       q_sqrt_tri = \<lparr> data = initial_q_sqrt_tri (length Z) out_dim q_sqrt_initial_value,
                      requires_grad = True \<rparr>,
       num_inducing = length Z,
       inducing_points = \<lparr> data = Z, requires_grad = True \<rparr>,
       Lu = None,
       q_sqrt = None \<rparr>"

text \<open>
  \<^verbatim>\<open>SparseGP.__init__\<close> takes the same arguments; it has no statement that assigns
  \<^verbatim>\<open>self.generative_function\<close>.
\<close>

definition SparseGP_init ::
  "genf \<Rightarrow> mat \<Rightarrow> nat \<Rightarrow> nat \<Rightarrow> bool \<Rightarrow> real option \<Rightarrow> real \<Rightarrow> real \<Rightarrow> (mat \<Rightarrow> mat) option
     \<Rightarrow> sparse_gp" where
  "SparseGP_init generative_fn Z in_dim out_dim add_prior log_noise
       q_sqrt_initial_value q_mu_initial_value mean_fn =
     \<lparr> input_dim = in_dim, freeze = False,
       add_prior_regularization = add_prior,
       q_mu = \<lparr> data = replicate (length Z) (replicate out_dim (1 * q_mu_initial_value)),
                requires_grad = True \<rparr>,
       mean_function = mean_fn,
       output_dim = out_dim,
       generative_function = None,
       log_layer_noise =
         (case log_noise of None \<Rightarrow> None
          | Some v \<Rightarrow> Some \<lparr> data = replicate out_dim (1 * v), requires_grad = True \<rparr>),
       q_sqrt_tri = \<lparr> data = initial_q_sqrt_tri (length Z) out_dim q_sqrt_initial_value,
                      requires_grad = True \<rparr>,
       num_inducing = length Z,
       inducing_points = \<lparr> data = Z, requires_grad = True \<rparr>,
       Lu = None,
       q_sqrt = None,
       log_lengthscale = \<lparr> data = 0, requires_grad = True \<rparr>,
       log_amplitude = \<lparr> data = 0, requires_grad = True \<rparr> \<rparr>"

text \<open>\<^verbatim>\<open>f_K = torch.einsum("and, amd -> nmd", phi, phi)\<close>.\<close>

definition joint_cov :: "tensor3 \<Rightarrow> real \<Rightarrow> tensor3" where
  "joint_cov f c =
     (let phi = centred f c in
      map (\<lambda>n. map (\<lambda>m. map (\<lambda>d. (\<Sum>a\<leftarrow>[0..<length f]. phi ! a ! n ! d * phi ! a ! m ! d))
        [0..<dim2 f]) [0..<dim1 f]) [0..<dim1 f])"

text \<open>\<^verbatim>\<open>f_K[r0:r0+R, c0:c0+C].permute(2, 0, 1)\<close>.\<close>

definition block :: "tensor3 \<Rightarrow> nat \<Rightarrow> nat \<Rightarrow> nat \<Rightarrow> nat \<Rightarrow> nat \<Rightarrow> tensor3" where
  "block fK r0 R c0 C Od =
     map (\<lambda>d. map (\<lambda>i. map (\<lambda>j. fK ! (r0 + i) ! (c0 + j) ! d) [0..<C]) [0..<R]) [0..<Od]"

text \<open>\<^verbatim>\<open>K + eps * torch.eye(n)\<close> on a batch of \<open>n\<close> by \<open>n\<close> matrices.\<close>

definition add_jitter :: "real \<Rightarrow> tensor3 \<Rightarrow> tensor3" where
  "add_jitter eps K =
     map (\<lambda>Kd. map (\<lambda>i. map (\<lambda>j. Kd ! i ! j + eps * (if i = j then 1 else 0))
       [0..<length Kd]) [0..<length Kd]) K"

text \<open>
  The two solves \<open>A = Kfu Lu\<^sup>-\<^sup>T Lu\<^sup>-\<^sup>1\<close> of lines 376-377 and 541-542, matrix by matrix
  of the batch.
\<close>

definition whitened :: "tensor3 \<Rightarrow> tensor3 \<Rightarrow> tensor3" where
  "whitened lu Kfu =
     map (\<lambda>d. solve_triangular (lu ! d)
                 (solve_triangular (mat_transpose (lu ! d)) (Kfu ! d) True False) False False)
       [0..<length lu]"

text \<open>\<^verbatim>\<open>mean = torch.einsum("dnm, md -> nd", A, self.q_mu)\<close>.\<close>

definition cond_mean :: "tensor3 \<Rightarrow> mat \<Rightarrow> nat \<Rightarrow> nat \<Rightarrow> nat \<Rightarrow> mat" where
  "cond_mean A qmu M N Dout =
     map (\<lambda>n. map (\<lambda>d. (\<Sum>m\<leftarrow>[0..<M]. bget A d ! n ! m * bget (qmu ! m) d)) [0..<Dout]) [0..<N]"

text \<open>\<^verbatim>\<open>SK = torch.einsum("nmd, bmd->dnb", self.q_sqrt, self.q_sqrt) - Ku\<close>.\<close>

definition cond_SK :: "tensor3 \<Rightarrow> tensor3 \<Rightarrow> nat \<Rightarrow> nat \<Rightarrow> tensor3" where
  "cond_SK q Ku M Dout =
     map (\<lambda>d. map (\<lambda>n. map (\<lambda>b.
            (\<Sum>m\<leftarrow>[0..<M]. bget (q ! n ! m) d * bget (q ! b ! m) d) - bget Ku d ! n ! b)
          [0..<M]) [0..<M]) [0..<Dout]"

text \<open>
  \<^verbatim>\<open>B = torch.einsum("dmb, dnb -> dmn", SK, A)\<close>,
  \<^verbatim>\<open>delta_cov = torch.sum(A * B.permute(0, 2, 1), -1)\<close> and
  \<^verbatim>\<open>K = torch.diagonal(Kf, dim1=1, dim2=2) + delta_cov\<close>.
\<close>

definition cond_var :: "tensor3 \<Rightarrow> tensor3 \<Rightarrow> tensor3 \<Rightarrow> nat \<Rightarrow> nat \<Rightarrow> nat \<Rightarrow> mat" where
  "cond_var A SK Kf M N Dout =
     (let B = map (\<lambda>d. map (\<lambda>m. map (\<lambda>n.
                  (\<Sum>b\<leftarrow>[0..<M]. SK ! d ! m ! b * bget A d ! n ! b))
                [0..<N]) [0..<M]) [0..<Dout];
          delta_cov = map (\<lambda>d. map (\<lambda>n.
                  (\<Sum>m\<leftarrow>[0..<M]. bget A d ! n ! m * B ! d ! m ! n))
                [0..<N]) [0..<Dout]
      in map (\<lambda>d. map (\<lambda>n. bget Kf d ! n ! n + delta_cov ! d ! n) [0..<N]) [0..<Dout])"

text \<open>
  The conditioning that \<^verbatim>\<open>VIPLayerInducing.forward\<close> (lines 374-395) and
  \<^verbatim>\<open>SparseGP.forward\<close> (lines 539-560) hold in the same words: from \<^verbatim>\<open>Ku\<close>,
  \<^verbatim>\<open>Kf\<close> and \<^verbatim>\<open>Kfu\<close> to the mean and the variance before noise and mean function.
  \<open>N\<close> is \<^verbatim>\<open>X.shape[0]\<close>.  The state returned has the attributes assigned up to the
  point the method left: \<^verbatim>\<open>Lu\<close> after the factorisation, \<^verbatim>\<open>q_sqrt\<close> first as the
  zero tensor and then with the packed rows written into it.
\<close>

definition conditioning ::
  "'a inducing_layer_scheme \<Rightarrow> nat \<Rightarrow> tensor3 \<Rightarrow> tensor3 \<Rightarrow> tensor3
     \<Rightarrow> (error + (mat \<times> mat)) \<times> 'a inducing_layer_scheme" where
  "conditioning self N Ku Kf Kfu =
     (let M = num_inducing self; D = output_dim self in
      case cholesky_batch (add_jitter (1 / 10 ^ 4) Ku) of
        Inl e \<Rightarrow> (Inl e, self)
      | Inr lu \<Rightarrow>
         (let s1 = self\<lparr> Lu := Some lu \<rparr>;
              A = whitened lu Kfu;
              Dout = bdim (length A) D
          in
          if \<not> bcompat (length A) D then (Inl ShapeError, s1)
          else
            (case unpack M D (data (q_sqrt_tri self)) of
               Inl e \<Rightarrow> (Inl e, s1\<lparr> q_sqrt := Some (replicate M (replicate M (replicate D 0))) \<rparr>)
             | Inr q \<Rightarrow>
                (Inr (cond_mean A (data (q_mu self)) M N Dout,
                      cond_var A (cond_SK q Ku M Dout) Kf M N Dout),
                 s1\<lparr> q_sqrt := Some q \<rparr>))))"

text \<open>
  \<^verbatim>\<open>K = K + torch.exp(self.log_layer_noise).unsqueeze(-1)\<close>: the noise along the
  first axis of a variance with \<open>R\<close> rows and \<open>C\<close> columns.
\<close>

definition add_noise_rows :: "vec parameter option \<Rightarrow> mat \<Rightarrow> nat \<Rightarrow> nat \<Rightarrow> mat" where
  "add_noise_rows noise K R C =
     (case noise of
        None \<Rightarrow> K
      | Some p \<Rightarrow> map (\<lambda>r. map (\<lambda>c. K ! r ! c + exp (bget (data p) r)) [0..<C]) [0..<R])"

text \<open>
  \<^verbatim>\<open>torch.cat([X, self.inducing_points], dim = 0)\<close>: the rows of both, which have
  to be of one length.
\<close>

definition cat_rows :: "mat \<Rightarrow> mat \<Rightarrow> error + mat" where
  "cat_rows X Z =
     (if X \<noteq> [] \<and> Z \<noteq> [] \<and> dim1 X \<noteq> dim1 Z then Inl ShapeError else Inr (X @ Z))"

text \<open>
  The three blocks of the empirical covariance of the samples \<open>f\<close> at \<open>N\<close> data and
  \<open>M\<close> inducing locations, lines 367-372; the divisor is \<^verbatim>\<open>sqrt(f.shape[0] - 1)\<close>.
\<close>

definition empirical_Ku :: "tensor3 \<Rightarrow> nat \<Rightarrow> nat \<Rightarrow> tensor3" where
  "empirical_Ku f N M =
     add_jitter (2 / 10 ^ 6) (block (joint_cov f (sqrt (real (length f) - 1))) N M N M (dim2 f))"

definition empirical_Kf :: "tensor3 \<Rightarrow> nat \<Rightarrow> tensor3" where
  "empirical_Kf f N =
     add_jitter (2 / 10 ^ 6) (block (joint_cov f (sqrt (real (length f) - 1))) 0 N 0 N (dim2 f))"

definition empirical_Kfu :: "tensor3 \<Rightarrow> nat \<Rightarrow> nat \<Rightarrow> tensor3" where
  "empirical_Kfu f N M = block (joint_cov f (sqrt (real (length f) - 1))) 0 N N M (dim2 f)"

text \<open>
  \<^verbatim>\<open>VIPLayerInducing.forward\<close>.  The samples are drawn at the data and the inducing
  locations in one call and have to cover them (\<open>N + M\<close> rows).  Their number is
  \<^verbatim>\<open>f.shape[0]\<close>; with one sample the covariance is not finite and no factor is stored.
\<close>

definition VIPLayerInducing_forward ::
  "inducing_layer \<Rightarrow> mat \<Rightarrow> bool
     \<Rightarrow> (error + (mat \<times> mat \<times> tensor3 option)) \<times> inducing_layer" where
  "VIPLayerInducing_forward self X return_prior_samples =
     (case generative_function self of
        None \<Rightarrow> (Inl AttributeError, self)
      | Some g \<Rightarrow>
         (case cat_rows X (data (inducing_points self)) of
            Inl e \<Rightarrow> (Inl e, self)
          | Inr X_and_Z \<Rightarrow>
             (let f = sample g X_and_Z;
                  N = length X;
                  M = num_inducing self
              in
              if dim1 f \<noteq> N + M then (Inl ShapeError, self)
              else
                (case phi_divisor (length f) of
                   Inl e \<Rightarrow> (Inl e, self)
                 | Inr c \<Rightarrow>
                    (case conditioning self N (empirical_Ku f N M) (empirical_Kf f N)
                            (empirical_Kfu f N M) of
                       (Inl e, s) \<Rightarrow> (Inl e, s)
                     | (Inr (mean, K), s) \<Rightarrow>
                        (case add_mean_function (mean_function self) mean X of
                           Inl e \<Rightarrow> (Inl e, s)
                         | Inr mu \<Rightarrow>
                            (Inr (mu,
                                  add_noise_rows (log_layer_noise self) K (length K) N,
                                  if return_prior_samples then Some (map (take N) f) else None),
                             s)))))))"

text \<open>\<^verbatim>\<open>SparseGP.kernel\<close>; the result carries a leading axis of size one.\<close>

definition kernel :: "sparse_gp \<Rightarrow> mat \<Rightarrow> mat option \<Rightarrow> error + tensor3" where
  "kernel self x1 x2_opt =
     (let x2 = (case x2_opt of None \<Rightarrow> x1 | Some x \<Rightarrow> x);
          x1' = map (map (\<lambda>v. v / exp (data (log_lengthscale self)))) x1;
          x2' = map (map (\<lambda>v. v / exp (data (log_lengthscale self)))) x2
      in
      if \<not> bcompat (dim1 x1) (dim1 x2) then Inl ShapeError
      else Inr [map (\<lambda>i. map (\<lambda>j.
                  exp (data (log_amplitude self))
                  * exp (- (\<Sum>c\<leftarrow>[0..<bdim (dim1 x1) (dim1 x2)].
                              (bget (x1' ! i) c - bget (x2' ! j) c) ^ 2)))
                [0..<length x2]) [0..<length x1]])"

text \<open>
  \<^verbatim>\<open>SparseGP.forward\<close>.  The noise is added without the \<^verbatim>\<open>unsqueeze(-1)\<close> of the
  inducing layer, so it broadcasts along the last axis of the variance.
\<close>

definition SparseGP_forward ::
  "sparse_gp \<Rightarrow> mat \<Rightarrow> bool \<Rightarrow> (error + (mat \<times> mat \<times> tensor3 option)) \<times> sparse_gp" where
  "SparseGP_forward self X return_prior_samples =
     (let Z = data (inducing_points self); N = length X in
      case kernel self Z None of
        Inl e \<Rightarrow> (Inl e, self)
      | Inr kz \<Rightarrow>
         (case kernel self X None of
            Inl e \<Rightarrow> (Inl e, self)
          | Inr kx \<Rightarrow>
             (case kernel self X (Some Z) of
                Inl e \<Rightarrow> (Inl e, self)
              | Inr Kfu \<Rightarrow>
                 (case conditioning self N (add_jitter (2 / 10 ^ 6) kz)
                         (add_jitter (2 / 10 ^ 6) kx) Kfu of
                    (Inl e, s) \<Rightarrow> (Inl e, s)
                  | (Inr (mean, K), s) \<Rightarrow>
                     (case log_layer_noise self of
                        Some p \<Rightarrow>
                          if \<not> bcompat N (length (data p)) then (Inl ShapeError, s)
                          else
                            (case add_mean_function (mean_function self) mean X of
                               Inl e \<Rightarrow> (Inl e, s)
                             | Inr mu \<Rightarrow>
                                (Inr (mu,
                                      add_noise (Some p) K (length K) (bdim N (length (data p))),
                                      if return_prior_samples
                                      then Some (replicate 20 (replicate N [0])) else None),
                                 s))
                      | None \<Rightarrow>
                          (case add_mean_function (mean_function self) mean X of
                             Inl e \<Rightarrow> (Inl e, s)
                           | Inr mu \<Rightarrow>
                              (Inr (mu, K,
                                    if return_prior_samples
                                    then Some (replicate 20 (replicate N [0])) else None),
                               s)))))))"

text \<open>
  \<^verbatim>\<open>VIPLayerInducing.KL\<close>.  \<^verbatim>\<open>solve_triangular(self.Lu, self.q_sqrt)\<close> reads the
  first axis of either operand as the batch, so the first axes have to broadcast;
  \<^verbatim>\<open>solve_triangular(self.Lu, self.q_mu)\<close> uses \<^verbatim>\<open>q_mu\<close> with every factor of the batch.
\<close>

definition VIPLayerInducing_KL :: "inducing_layer \<Rightarrow> error + real" where
  "VIPLayerInducing_KL self =
     (let tri = data (q_sqrt_tri self);
          diag_idx = diag_indexes (num_inducing self)
      in
      if \<not> list_all (\<lambda>i. i < length tri) diag_idx then Inl IndexError
      else
        (let diag = map (\<lambda>i. tri ! i) diag_idx;
             KL0 = - 0.5 * real (output_dim self) * real (num_inducing self);
             KL1 = KL0 - sum_all (map (map (\<lambda>x. ln \<bar>x\<bar>)) diag)
         in
         case Lu self of
           None \<Rightarrow> Inl AttributeError
         | Some lu \<Rightarrow>
            (let Lu_diag = map (\<lambda>L. map (\<lambda>i. L ! i ! i) [0..<length L]) lu;
                 KL2 = KL1 + sum_all (map (map (\<lambda>x. ln \<bar>x\<bar>)) Lu_diag)
             in
             case q_sqrt self of
               None \<Rightarrow> Inl AttributeError
             | Some qs \<Rightarrow>
                if \<not> bcompat (length lu) (length qs) then Inl ShapeError
                else
                  (let sol = map (\<lambda>t. solve_triangular (bget lu t) (bget qs t) False True)
                               [0..<bdim (length lu) (length qs)];
                       KL3 = KL2 + 0.5 * sum_list (map (\<lambda>W. sum_all (map (map (\<lambda>x. x * x)) W)) sol);
                       Kinv_m = map (\<lambda>L. solve_triangular L (data (q_mu self)) False True) lu;
                       KL4 = KL3 + 0.5 * sum_list (map (\<lambda>W.
                               sum_all (map (\<lambda>m. map (\<lambda>d. data (q_mu self) ! m ! d * W ! m ! d)
                                 [0..<dim1 (data (q_mu self))]) [0..<length (data (q_mu self))]))
                               Kinv_m);
                       KL5 = (if add_prior_regularization self
                              then (case generative_function self of
                                      None \<Rightarrow> Inl AttributeError
                                    | Some g \<Rightarrow> Inr (KL4 + prior_KL g))
                              else Inr KL4)
                   in
                   (case KL5 of
                      Inl e \<Rightarrow> Inl e
                    | Inr v \<Rightarrow>
                       if list_ex (list_ex (\<lambda>x. x = 0)) diag \<or> list_ex (list_ex (\<lambda>x. x = 0)) Lu_diag
                       then Inl InfiniteLog else Inr v)))))"

text \<open>\<^verbatim>\<open>SparseGP.KL\<close>, lines 574-599.\<close>

definition SparseGP_KL :: "sparse_gp \<Rightarrow> error + real" where
  "SparseGP_KL self =
     (let tri = data (q_sqrt_tri self);
          diag_idx = diag_indexes (num_inducing self)
      in
      if \<not> list_all (\<lambda>i. i < length tri) diag_idx then Inl IndexError
      else
        (let diag = map (\<lambda>i. tri ! i) diag_idx;
             KL0 = - 0.5 * real (output_dim self) * real (num_inducing self);
             KL1 = KL0 - sum_all (map (map (\<lambda>x. ln \<bar>x\<bar>)) diag)
         in
         case Lu self of
           None \<Rightarrow> Inl AttributeError
         | Some lu \<Rightarrow>
            (let Lu_diag = map (\<lambda>L. map (\<lambda>i. L ! i ! i) [0..<length L]) lu;
                 KL2 = KL1 + sum_all (map (map (\<lambda>x. ln \<bar>x\<bar>)) Lu_diag)
             in
             case q_sqrt self of
               None \<Rightarrow> Inl AttributeError
             | Some qs \<Rightarrow>
                if \<not> bcompat (length lu) (length qs) then Inl ShapeError
                else
                  (let sol = map (\<lambda>t. solve_triangular (bget lu t) (bget qs t) False True)
                               [0..<bdim (length lu) (length qs)];
                       KL3 = KL2 + 0.5 * sum_list (map (\<lambda>W. sum_all (map (map (\<lambda>x. x * x)) W)) sol);
                       Kinv_m = map (\<lambda>L. solve_triangular L (data (q_mu self)) False True) lu;
                       KL4 = KL3 + 0.5 * sum_list (map (\<lambda>W.
                               sum_all (map (\<lambda>m. map (\<lambda>d. data (q_mu self) ! m ! d * W ! m ! d)
                                 [0..<dim1 (data (q_mu self))]) [0..<length (data (q_mu self))]))
                               Kinv_m);
                       KL5 = (if add_prior_regularization self
                              then (case generative_function self of
                                      None \<Rightarrow> Inl AttributeError
                                    | Some g \<Rightarrow> Inr (KL4 + prior_KL g))
                              else Inr KL4)
                   in
                   (case KL5 of
                      Inl e \<Rightarrow> Inl e
                    | Inr v \<Rightarrow>
                       if list_ex (list_ex (\<lambda>x. x = 0)) diag \<or> list_ex (list_ex (\<lambda>x. x = 0)) Lu_diag
                       then Inl InfiniteLog else Inr v)))))"

section \<open>Concrete layers\<close>

text \<open>
  A generative function that returns the same samples at every call, and the layers
  on which the theorems below are evaluated.
\<close>

definition ex_genf :: "tensor3 \<Rightarrow> real \<Rightarrow> genf" where
  "ex_genf f k = \<lparr> sample = (\<lambda>X. f), prior_KL = k, parameters_frozen = False \<rparr>"

text \<open>
  Two coefficients, one output, the samples \<open>1\<close> and \<open>-1\<close> at one point, and the
  factor \<open>[[1, 0], [1, 2]]\<close>, which is not symmetric.
\<close>

definition ex_vip :: vip_layer where
  "ex_vip = (VIPLayer_init (ex_genf [[[1]], [[-1]]] 0) 2 1 1 False None 1 0 None)
              \<lparr> q_sqrt_tri := \<lparr> data = [[1], [1], [2]], requires_grad = True \<rparr> \<rparr>"

text \<open>
  The unbiased sample variance, in the words of the specification; the variance of the
  layer is compared with it.
\<close>
definition unbiased_sample_variance :: "real list \<Rightarrow> real" where
  "unbiased_sample_variance xs =
     (\<Sum>x\<leftarrow>xs. (x - sum_list xs / real (length xs))\<^sup>2) / (real (length xs) - 1)"

text \<open>
  An inducing layer with one data point and two inducing points: two samples, \<open>1\<close> and
  \<open>-1\<close> at the data point and at the first inducing point and \<open>0\<close> at the second, and
  the factor \<open>[[1, 0], [1, 1]]\<close>.  \<open>ex_lu\<close> is the Cholesky factor its \<^verbatim>\<open>forward\<close>
  stores and \<open>ex_var\<close> the variance it returns.
\<close>

definition ex_F :: tensor3 where
  "ex_F = [[[1], [1], [0]], [[-1], [-1], [0]]]"

definition ex_ind :: inducing_layer where
  "ex_ind = (VIPLayerInducing_init (ex_genf ex_F 0) [[1], [2]] 1 1 False None 1 0 None)
              \<lparr> q_sqrt_tri := \<lparr> data = [[1], [1], [1]], requires_grad = True \<rparr> \<rparr>"

definition ex_lu :: tensor3 where
  "ex_lu = [[[sqrt (2 + 102 / 10 ^ 6), 0], [0, sqrt (102 / 10 ^ 6)]]]"

definition ex_var :: real where
  "ex_var = 2 + 2 / 10 ^ 6 + (2 / (2 + 102 / 10 ^ 6))\<^sup>2 * (1 - (2 + 2 / 10 ^ 6))"

text \<open>
  A sparse layer and an inducing layer built from the same arguments, with the prior
  regularisation on; the inducing layer holds the factors that \<^verbatim>\<open>forward\<close> stores on
  the sparse layer at the input \<open>[[0]]\<close>.
\<close>

definition ex_sgp :: sparse_gp where
  "ex_sgp = SparseGP_init (ex_genf [] 7) [[0]] 1 1 True None 1 0 None"


section \<open>Facts about the packed triangular layout\<close>


lemma length_tril_indices: "length (tril_indices n) = n * (n + 1) div 2"
  by (induction n) (simp_all add: tril_indices_def)

lemma tri_mono:
  fixes i j n :: nat
  assumes a: "i < n" "j \<le> i"
  shows "i * (i + 1) div 2 + j < n * (n + 1) div 2"
proof -
  have "Suc i \<le> n" using a by simp
  then have "Suc i * (Suc i + 1) \<le> n * (n + 1)" by (intro mult_le_mono) auto
  then have "Suc i * (Suc i + 1) div 2 \<le> n * (n + 1) div 2" by (rule div_le_mono)
  moreover have "Suc i * (Suc i + 1) div 2 = i * (i + 1) div 2 + Suc i"
    by (simp add: algebra_simps) 
  ultimately show ?thesis using a by linarith
qed


lemma set_tril_indices: "set (tril_indices n) = {(i, j). i < n \<and> j \<le> i}"
  by (fastforce simp: tril_indices_def simp del: upt_Suc)


lemma scatter_length:
  "length (fold (\<lambda>((i, j), row) q. q[i := (q ! i)[j := row]]) ps q) = length q"
  by (induction ps arbitrary: q) (auto split: prod.splits)

lemma scatter_row_length:
  "a < length q \<Longrightarrow>
   length (fold (\<lambda>((i, j), row) q. q[i := (q ! i)[j := row]]) ps q ! a) = length (q ! a)"
proof (induction ps arbitrary: q)
  case Nil then show ?case by simp
next
  case (Cons p ps)
  obtain i j row where p: "p = ((i, j), row)" by (cases p) auto
  have "length (q[i := (q ! i)[j := row]] ! a) = length (q ! a)"
    using Cons.prems by (cases "a = i") auto
  then show ?case using Cons.IH[of "q[i := (q ! i)[j := row]]"] Cons.prems
    by (simp add: p)
qed



lemma unpack_dims:
  assumes "unpack K D tri = Inr q"
  shows "length q = K" and "a < K \<Longrightarrow> length (q ! a) = K"
  using assms by (auto simp: unpack_def scatter_length scatter_row_length split: if_splits)


lemma cumsum_from_nth:
  "j < n \<Longrightarrow> cumsum_from acc [m..<m + n] ! j = acc + (\<Sum>i\<leftarrow>[m..<m + Suc j]. i)"
proof (induction n arbitrary: acc m j)
  case 0 then show ?case by simp
next
  case (Suc n)
  have e: "[m..<m + Suc n] = m # [Suc m..<Suc m + n]" by (simp add: upt_rec)
  show ?case
  proof (cases j)
    case 0 then show ?thesis unfolding e by simp
  next
    case (Suc j')
    then have "j' < n" using Suc.prems by simp
    from Suc.IH[OF this, of "acc + m" "Suc m"]
    have "cumsum_from (acc + m) [Suc m..<Suc m + n] ! j' = acc + m + (\<Sum>i\<leftarrow>[Suc m..<Suc m + Suc j']. i)" .
    moreover have "[m..<m + Suc j] = m # [Suc m..<Suc m + Suc j']" using Suc by (simp add: upt_rec)
    ultimately show ?thesis unfolding e Suc by simp
  qed
qed

lemma length_cumsum_from: "length (cumsum_from acc xs) = length xs"
  by (induction xs arbitrary: acc) auto

lemma sum_upto: "(\<Sum>i\<leftarrow>[1..<Suc (Suc j)]. i) = (j + 1) * (j + 2) div 2"
  by (induction j) (auto simp: algebra_simps)

lemma length_diag_indexes: "length (diag_indexes K) = K"
  by (simp add: diag_indexes_def cumsum_def length_cumsum_from)

lemma diag_indexes_nth: "j < K \<Longrightarrow> diag_indexes K ! j = j * (j + 1) div 2 + j"
proof -
  assume j: "j < K"
  have "cumsum_from 0 [1..<1 + K] ! j = 0 + (\<Sum>i\<leftarrow>[1..<1 + Suc j]. i)"
    using j by (rule cumsum_from_nth)
  then have "cumsum [1..<Suc K] ! j = (j + 1) * (j + 2) div 2"
    using sum_upto[of j] by (simp add: cumsum_def)
  moreover have "(j + 1) * (j + 2) div 2 = j * (j + 1) div 2 + j + 1"
  proof -
    have "(j + 1) * (j + 2) = j * (j + 1) + 2 * (j + 1)" by (simp add: algebra_simps)
    then show ?thesis by simp
  qed
  ultimately show ?thesis using j
    by (simp add: diag_indexes_def cumsum_def length_cumsum_from)
qed


lemma diag_indexes_in_range:
  "list_all (\<lambda>i. i < K * (K + 1) div 2) (diag_indexes K)"
  unfolding list_all_length
proof (intro allI impI)
  fix j assume "j < length (diag_indexes K)"
  then have j: "j < K" by (simp add: length_diag_indexes)
  show "diag_indexes K ! j < K * (K + 1) div 2"
    using tri_mono[OF j order_refl] by (simp add: diag_indexes_nth[OF j])
qed


section \<open>Sums and quadratic forms\<close>

lemma sum_list_upt_lessThan: "(\<Sum>i\<leftarrow>[0..<n]. f i) = (\<Sum>i<n. (f i :: real))"
  by (metis atLeast_upt sum_set_upt_conv_sum_list_nat)

lemma gram_sum:
  fixes Q :: "nat \<Rightarrow> nat \<Rightarrow> real" and v :: "nat \<Rightarrow> real"
  shows "(\<Sum>i<K. \<Sum>j<K. v i * (\<Sum>s<K. Q s i * Q s j) * v j)
         = (\<Sum>s<K. (\<Sum>i<K. v i * Q s i) * (\<Sum>i<K. v i * Q s i))"
proof -
  have "(\<Sum>s<K. (\<Sum>i<K. v i * Q s i) * (\<Sum>i<K. v i * Q s i))
        = (\<Sum>s<K. \<Sum>i<K. \<Sum>j<K. v i * Q s i * (v j * Q s j))"
    by (simp add: sum_product)
  also have "\<dots> = (\<Sum>i<K. \<Sum>s<K. \<Sum>j<K. v i * Q s i * (v j * Q s j))"
    by (rule sum.swap)
  also have "\<dots> = (\<Sum>i<K. \<Sum>j<K. \<Sum>s<K. v i * Q s i * (v j * Q s j))"
    by (rule sum.cong[OF refl]) (rule sum.swap)
  also have "\<dots> = (\<Sum>i<K. \<Sum>j<K. v i * (\<Sum>s<K. Q s i * Q s j) * v j)"
    by (simp add: sum_distrib_left sum_distrib_right mult_ac)
  finally show ?thesis by simp
qed

lemma dim1_rows: "length A = K \<Longrightarrow> \<forall>i<K. length (A ! i) = K \<Longrightarrow> dim1 A = K"
  by (cases A) (auto simp: dim1_def)


lemma mat_transpose_nth:
  "j < dim1 A \<Longrightarrow> i < length A \<Longrightarrow> mat_transpose A ! j ! i = A ! i ! j"
  by (simp add: mat_transpose_def)

lemma length_mat_transpose: "length (mat_transpose A) = dim1 A"
  by (simp add: mat_transpose_def)


lemma quad_form_gram:
  assumes len: "length Q = K" and rows: "\<forall>s<K. length (Q ! s) = K" and v: "length v = K"
  shows "quad_form (mat_mul (mat_transpose Q) Q) v
         = (\<Sum>s\<leftarrow>[0..<K]. (\<Sum>i\<leftarrow>[0..<K]. v ! i * Q ! s ! i) * (\<Sum>i\<leftarrow>[0..<K]. v ! i * Q ! s ! i))"
proof -
  have d: "dim1 Q = K" by (rule dim1_rows[OF len rows])
  have entry: "mat_mul (mat_transpose Q) Q ! i ! j = (\<Sum>s<K. Q ! s ! i * Q ! s ! j)"
    if "i < K" "j < K" for i j
    using that by (simp add: mat_mul_def length_mat_transpose d len sum_list_upt_lessThan
        mat_transpose_nth)
  have "quad_form (mat_mul (mat_transpose Q) Q) v
        = (\<Sum>i<K. \<Sum>j<K. v ! i * (\<Sum>s<K. Q ! s ! i * Q ! s ! j) * v ! j)"
    by (simp add: quad_form_def v sum_list_upt_lessThan entry)
  also have "\<dots> = (\<Sum>s<K. (\<Sum>i<K. v ! i * Q ! s ! i) * (\<Sum>i<K. v ! i * Q ! s ! i))"
    by (rule gram_sum)
  finally show ?thesis by (simp add: sum_list_upt_lessThan)
qed


lemma slice_d_nth:
  "s < length q \<Longrightarrow> i < length (q ! s) \<Longrightarrow> slice_d q d ! s ! i = bget (q ! s ! i) d"
  by (simp add: slice_d_def)

lemma centred_nth:
  "s < length f \<Longrightarrow> n < dim1 f \<Longrightarrow> d < dim2 f \<Longrightarrow>
   centred f c ! s ! n ! d
     = (f ! s ! n ! d - (\<Sum>a\<leftarrow>[0..<length f]. f ! a ! n ! d) / real (length f)) / c"
  by (simp add: centred_def sample_mean_def Let_def)

lemma regression_var_nth:
  assumes n: "n < N" and d: "d < Dout"
    and lq: "length q = S" and lqr: "\<forall>a<S. length (q ! a) = S" and lphi: "length phi = S"
  shows "regression_var phi q S N Dout ! n ! d
         = quad_form (mat_mul (mat_transpose (slice_d q d)) (slice_d q d)) (column_nd phi n d)"
proof -
  let ?Q = "slice_d q d" and ?v = "column_nd phi n d"
  have Qlen: "length ?Q = S" by (simp add: slice_d_def lq)
  have Qrows: "\<forall>s<S. length (?Q ! s) = S" using lqr by (simp add: slice_d_def lq)
  have vlen: "length ?v = S" by (simp add: column_nd_def lphi)
  have inner: "(\<Sum>i\<leftarrow>[0..<S]. ?v ! i * ?Q ! s ! i)
               = (\<Sum>i\<leftarrow>[0..<S]. bget (phi ! i ! n) d * bget (q ! s ! i) d)" if "s < S" for s
    by (rule arg_cong[where f = sum_list], rule map_cong[OF refl])
       (use that lqr in \<open>simp add: column_nd_def lphi slice_d_nth lq\<close>)
  have "quad_form (mat_mul (mat_transpose ?Q) ?Q) ?v
        = (\<Sum>s\<leftarrow>[0..<S]. (\<Sum>i\<leftarrow>[0..<S]. ?v ! i * ?Q ! s ! i) * (\<Sum>i\<leftarrow>[0..<S]. ?v ! i * ?Q ! s ! i))"
    by (rule quad_form_gram[OF Qlen Qrows vlen])
  also have "\<dots> = (\<Sum>s\<leftarrow>[0..<S]. (\<Sum>i\<leftarrow>[0..<S]. bget (phi ! i ! n) d * bget (q ! s ! i) d)
                                * (\<Sum>i\<leftarrow>[0..<S]. bget (phi ! i ! n) d * bget (q ! s ! i) d))"
    by (rule arg_cong[where f = sum_list], rule map_cong[OF refl]) (simp add: inner)
  also have "\<dots> = regression_var phi q S N Dout ! n ! d"
  proof -
    have "(\<Sum>s\<leftarrow>[0..<S]. (\<Sum>i\<leftarrow>[0..<S]. bget (phi ! i ! n) d * bget (q ! s ! i) d)
                                * (\<Sum>i\<leftarrow>[0..<S]. bget (phi ! i ! n) d * bget (q ! s ! i) d))
          = (\<Sum>s\<leftarrow>[0..<S].
               map (\<lambda>s. map (\<lambda>n. map (\<lambda>d.
                  (\<Sum>i\<leftarrow>[0..<S]. bget (phi ! i ! n) d * bget (q ! s ! i) d))
                [0..<Dout]) [0..<N]) [0..<S] ! s ! n ! d
               * map (\<lambda>s. map (\<lambda>n. map (\<lambda>d.
                  (\<Sum>i\<leftarrow>[0..<S]. bget (phi ! i ! n) d * bget (q ! s ! i) d))
                [0..<Dout]) [0..<N]) [0..<S] ! s ! n ! d)"
      by (rule arg_cong[where f = sum_list], rule map_cong[OF refl]) (use n d in simp)
    then show ?thesis
      unfolding regression_var_def Let_def using n d by simp
  qed
  finally show ?thesis by simp
qed

lemma add_noise_nth:
  "r < R \<Longrightarrow> c < C \<Longrightarrow> length (K ! r) = C \<Longrightarrow>
   add_noise noise K R C ! r ! c
     = K ! r ! c + (case noise of None \<Rightarrow> 0 | Some p \<Rightarrow> exp (bget (data p) c))"
  by (auto simp: add_noise_def bget_def split: option.splits)

lemma regression_var_row_length:
  "n < N \<Longrightarrow> length (regression_var phi q S N Dout ! n) = Dout"
  by (simp add: regression_var_def Let_def)

section \<open>The claims about VIPLayer\<close>

text \<open>
  Claim C1, as amended.  Whenever \<^verbatim>\<open>VIPLayer.forward\<close> returns, its variance at
  point \<open>n\<close> and output dimension \<open>d\<close> is the quadratic form of
  \<open>phi[:, n, d]\<close> with the transpose of the unpacked factor times the factor,
  \<open>q_sqrt\<^sup>T q_sqrt\<close> (in that order), plus \<open>exp(log_layer_noise[d])\<close> when the layer
  has a noise; \<open>phi\<close> is the sample tensor minus its mean over the samples, divided by
  \<open>sqrt (S - 1)\<close>.
\<close>

theorem VIPLayer_forward_variance:
  assumes fw: "VIPLayer_forward self X rps = Inr (mean, var, smp)"
    and g: "generative_function self = Some g"
    and n: "n < dim1 (sample g X)"
    and d: "d < bdim (dim2 (sample g X)) (output_dim self)"
  shows "(\<exists>q. unpack (num_coeffs self) (output_dim self) (data (q_sqrt_tri self)) = Inr q
           \<and> var ! n ! d
               = quad_form (mat_mul (mat_transpose (slice_d q d)) (slice_d q d))
                   (column_nd (centred (sample g X) (sqrt (real (num_coeffs self) - 1))) n d)
                 + (case log_layer_noise self of None \<Rightarrow> 0 | Some p \<Rightarrow> exp (bget (data p) d)))
         \<and> (\<forall>s<num_coeffs self. \<forall>e<dim2 (sample g X).
               centred (sample g X) (sqrt (real (num_coeffs self) - 1)) ! s ! n ! e
               = (sample g X ! s ! n ! e
                  - (\<Sum>a\<leftarrow>[0..<num_coeffs self]. sample g X ! a ! n ! e) / real (num_coeffs self))
                 / sqrt (real (num_coeffs self) - 1))"
proof -
  let ?f = "sample g X" and ?S = "num_coeffs self" and ?D = "output_dim self"
  let ?phi = "centred ?f (sqrt (real ?S - 1))"
  let ?Dout = "bdim (dim2 ?f) ?D"
  from fw g obtain q where u: "unpack ?S ?D (data (q_sqrt_tri self)) = Inr q"
    and lf: "length ?f = ?S"
    and var: "var = add_noise (log_layer_noise self)
                      (regression_var ?phi q ?S (dim1 ?f) ?Dout) (dim1 ?f) ?Dout"
    by (auto simp: VIPLayer_forward_def Let_def split: if_splits sum.splits)
  have lq: "length q = ?S" and lqr: "\<forall>a<?S. length (q ! a) = ?S"
    using unpack_dims[OF u] by auto
  have lphi: "length ?phi = ?S" by (simp add: centred_def Let_def lf)
  have "var ! n ! d = regression_var ?phi q ?S (dim1 ?f) ?Dout ! n ! d
          + (case log_layer_noise self of None \<Rightarrow> 0 | Some p \<Rightarrow> exp (bget (data p) d))"
    unfolding var by (rule add_noise_nth[OF n d regression_var_row_length[OF n]])
  then have quad: "\<exists>q. unpack ?S ?D (data (q_sqrt_tri self)) = Inr q
           \<and> var ! n ! d
               = quad_form (mat_mul (mat_transpose (slice_d q d)) (slice_d q d)) (column_nd ?phi n d)
                 + (case log_layer_noise self of None \<Rightarrow> 0 | Some p \<Rightarrow> exp (bget (data p) d))"
    using u regression_var_nth[OF n d lq lqr lphi] by simp
  have "?phi ! s ! n ! e
        = (?f ! s ! n ! e - (\<Sum>a\<leftarrow>[0..<?S]. ?f ! a ! n ! e) / real ?S) / sqrt (real ?S - 1)"
    if "s < ?S" "e < dim2 ?f" for s e
    using centred_nth[of s ?f n e "sqrt (real ?S - 1)"] that n by (simp add: lf)
  with quad show ?thesis by blast
qed


section \<open>Evaluation at the concrete layers\<close>

lemma tril_indices_2: "tril_indices 2 = [(0, 0), (1, 0), (1, 1)]"
  by (simp add: tril_indices_def eval_nat_numeral)

lemma unpack_2: "unpack 2 (Suc 0) [[a], [b], [c]] = Inr [[[a], [0]], [[b], [c]]]"
  by (simp add: unpack_def tril_indices_2 is_mat_def) (simp add: eval_nat_numeral)

lemma ex_vip_fields:
  "generative_function ex_vip = Some (ex_genf [[[1]], [[-1]]] 0)"
  "num_coeffs ex_vip = 2" "output_dim ex_vip = Suc 0"
  "data (q_sqrt_tri ex_vip) = [[1], [1], [2]]"
  "data (q_mu ex_vip) = [[0], [0]]"
  "log_layer_noise ex_vip = None" "mean_function ex_vip = None"
  by (simp_all add: ex_vip_def VIPLayer_init_def eval_nat_numeral)

lemma ex_centred: "centred [[[1]], [[-1]]] 1 = [[[1]], [[-1]]]"
  by (simp add: centred_def sample_mean_def dim1_def dim2_def eval_nat_numeral)

lemma ex_sample_mean: "sample_mean [[[1]], [[-1]]] = [[0]]"
  by (simp add: sample_mean_def dim1_def dim2_def eval_nat_numeral)

lemma ex_vip_forward: "VIPLayer_forward ex_vip [[0]] False = Inr ([[0]], [[2]], None)"
  unfolding VIPLayer_forward_def ex_vip_fields
  apply (simp add: ex_genf_def Let_def unpack_2 dim1_def dim2_def bdim_def bcompat_def
      ex_centred ex_sample_mean phi_divisor_def add_mean_function_def add_noise_def)
  apply (simp add: regression_mean_def regression_var_def bget_def eval_nat_numeral)
  done

text \<open>
  Claim C1 as stated fails: with the factor \<open>[[1, 0], [1, 2]]\<close> and \<open>phi = (1, -1)\<close>
  the method returns the variance 2, and the quadratic form with the factor times its
  transpose is 4.
\<close>

theorem VIPLayer_forward_variance_counterexample:
  "VIPLayer_forward ex_vip [[0]] False = Inr ([[0]], [[2]], None)
   \<and> unpack (num_coeffs ex_vip) (output_dim ex_vip) (data (q_sqrt_tri ex_vip))
       = Inr [[[1], [0]], [[1], [2]]]
   \<and> [[2]] ! 0 ! 0
       \<noteq> quad_form (mat_mul (slice_d [[[1], [0]], [[1], [2]]] 0)
                  (mat_transpose (slice_d [[[1], [0]], [[1], [2]]] 0)))
           (column_nd (centred (sample (ex_genf [[[1]], [[-1]]] 0) [[0]])
                      (sqrt (real (num_coeffs ex_vip) - 1))) 0 0)"
proof -
  have "quad_form (mat_mul (slice_d [[[1], [0]], [[1], [2]]] 0)
                  (mat_transpose (slice_d [[[1], [0]], [[1], [2]]] 0)))
        (column_nd [[[1]], [[-1]]] 0 0) = 4"
    by (simp add: quad_form_def mat_mul_def mat_transpose_def slice_d_def column_nd_def
        dim1_def bget_def eval_nat_numeral)
  then show ?thesis
    by (simp add: ex_vip_forward ex_vip_fields unpack_2 ex_genf_def ex_centred)
qed

theorem VIPLayer_forward_variance_witness:
  "quad_form (mat_mul (mat_transpose (slice_d [[[1], [0]], [[1], [2]]] 0))
                  (slice_d [[[1], [0]], [[1], [2]]] 0))
        (column_nd (centred [[[1]], [[-1]]] 1) 0 0) = 2"
proof -
  have n: "0 < dim1 (sample (ex_genf [[[1]], [[-1]]] 0) [[0]])"
    by (simp add: ex_genf_def dim1_def)
  have d: "0 < bdim (dim2 (sample (ex_genf [[[1]], [[-1]]] 0) [[0]])) (output_dim ex_vip)"
    by (simp add: ex_genf_def dim1_def dim2_def bdim_def ex_vip_fields)
  from VIPLayer_forward_variance[OF ex_vip_forward ex_vip_fields(1) n d]
  show ?thesis
    by (simp add: ex_vip_fields unpack_2 ex_genf_def)
qed



lemma tril_indices_3: "tril_indices 3 = [(0, 0), (1, 0), (1, 1), (2, 0), (2, 1), (2, 2)]"
  by (simp add: tril_indices_def eval_nat_numeral)

lemma initial_tri_3: "initial_q_sqrt_tri 3 (Suc 0) v = [[v], [0], [v], [0], [0], [v]]"
  by (simp add: initial_q_sqrt_tri_def tril_indices_3 Let_def)

lemma unpack_3:
  "unpack 3 (Suc 0) [[a], [b], [c], [d], [e], [f]]
     = Inr [[[a], [0], [0]], [[b], [c], [0]], [[d], [e], [f]]]"
  by (simp add: unpack_def tril_indices_3 is_mat_def) (simp add: eval_nat_numeral)

lemma six_sample_mean: "sample_mean [[[1], [2]], [[3], [4]], [[5], [6]]] = [[3], [4]]"
  by (simp add: sample_mean_def dim1_def dim2_def eval_nat_numeral)

lemma six_centred:
  "centred [[[1], [2]], [[3], [4]], [[5], [6]]] c
     = [[[- 2 / c], [- 2 / c]], [[0], [0]], [[2 / c], [2 / c]]]"
  by (simp add: centred_def six_sample_mean dim1_def dim2_def eval_nat_numeral)

text \<open>
  Claim C6.  Three coefficients, one output, no noise, no mean function, \<open>q_mu = 0\<close> and
  the factor the constructor builds from the scale 1: when the generative function
  returns the samples \<open>[[1],[2]], [[3],[4]], [[5],[6]]\<close>, \<^verbatim>\<open>forward\<close> returns the mean
  \<open>[3, 4]\<close> and the unbiased sample variances of \<open>{1, 3, 5}\<close> and \<open>{2, 4, 6}\<close>,
  which are both 4.
\<close>

theorem VIPLayer_forward_three_samples:
  "VIPLayer_forward
     (VIPLayer_init (ex_genf [[[1], [2]], [[3], [4]], [[5], [6]]] k) 3 in_dim 1 add_prior None 1 0 None)
     X False
   = Inr ([[3], [4]],
          [[unbiased_sample_variance [1, 3, 5]], [unbiased_sample_variance [2, 4, 6]]],
          None)
   \<and> unbiased_sample_variance [1, 3, 5] = 4 \<and> unbiased_sample_variance [2, 4, 6] = 4"
proof -
  have v: "unbiased_sample_variance [1, 3, 5] = 4" "unbiased_sample_variance [2, 4, 6] = 4"
    by (simp_all add: unbiased_sample_variance_def power2_eq_square)
  have "VIPLayer_forward
     (VIPLayer_init (ex_genf [[[1], [2]], [[3], [4]], [[5], [6]]] k) 3 in_dim 1 add_prior None 1 0 None)
     X False = Inr ([[3], [4]], [[4], [4]], None)"
    unfolding VIPLayer_forward_def VIPLayer_init_def
    apply (simp add: ex_genf_def Let_def initial_tri_3 unpack_3 dim1_def dim2_def bdim_def
        bcompat_def six_centred six_sample_mean phi_divisor_def add_mean_function_def
        add_noise_def)
    apply (simp add: regression_mean_def regression_var_def bget_def eval_nat_numeral)
    done
  then show ?thesis using v by simp
qed

theorem VIPLayer_forward_three_samples_witness:
  "VIPLayer_forward
     (VIPLayer_init (ex_genf [[[1], [2]], [[3], [4]], [[5], [6]]] 0) 3 1 1 False None 1 0 None)
     [[0], [1]] False
   = Inr ([[3], [4]], [[4], [4]], None)"
  using VIPLayer_forward_three_samples[of 0 1 False "[[0], [1]]"] by simp



section \<open>Frame of the operations\<close>

lemma initial_q_sqrt_tri_shape: "is_mat (K * (K + 1) div 2) D (initial_q_sqrt_tri K D v)"
proof -
  have "length (initial_q_sqrt_tri K D v) = K * (K + 1) div 2"
    by (simp add: initial_q_sqrt_tri_def Let_def length_tril_indices)
  moreover have "length r = D" if "r \<in> set (initial_q_sqrt_tri K D v)" for r
  proof -
    from that obtain i j where "(i, j) \<in> set (tril_indices K)"
      and r: "r = map (\<lambda>i. map (\<lambda>j. replicate D ((if i = j then 1 else 0) * v)) [0..<K]) [0..<K] ! i ! j"
      by (auto simp: initial_q_sqrt_tri_def Let_def)
    then have "i < K" "j < K" by (auto simp: set_tril_indices)
    then show ?thesis by (simp add: r)
  qed
  ultimately show ?thesis by (simp add: is_mat_def list_all_iff)
qed

lemma conditioning_state:
  "\<exists>lu' q'. snd (conditioning self N Ku Kf Kfu) = self\<lparr> Lu := lu', q_sqrt := q' \<rparr>"
proof (cases "cholesky_batch (add_jitter (1 / 10 ^ 4) Ku)")
  case (Inl e)
  then have "snd (conditioning self N Ku Kf Kfu) = self\<lparr> Lu := Lu self, q_sqrt := q_sqrt self \<rparr>"
    by (simp add: conditioning_def)
  then show ?thesis by blast
next
  case c: (Inr lu)
  show ?thesis
  proof (cases "bcompat (length (whitened lu Kfu)) (output_dim self)")
    case False
    then have "snd (conditioning self N Ku Kf Kfu) = self\<lparr> Lu := Some lu, q_sqrt := q_sqrt self \<rparr>"
      using c by (simp add: conditioning_def Let_def)
    then show ?thesis by blast
  next
    case True
    show ?thesis
    proof (cases "unpack (num_inducing self) (output_dim self) (data (q_sqrt_tri self))")
      case (Inl e)
      then have "snd (conditioning self N Ku Kf Kfu)
                 = self\<lparr> Lu := Some lu,
                         q_sqrt := Some (replicate (num_inducing self)
                           (replicate (num_inducing self) (replicate (output_dim self) 0))) \<rparr>"
        using c True by (simp add: conditioning_def Let_def)
      then show ?thesis by blast
    next
      case (Inr q)
      then have "snd (conditioning self N Ku Kf Kfu) = self\<lparr> Lu := Some lu, q_sqrt := Some q \<rparr>"
        using c True by (simp add: conditioning_def Let_def)
      then show ?thesis by blast
    qed
  qed
qed


lemma SparseGP_forward_state:
  "\<exists>lu' q'. snd (SparseGP_forward self X rps) = self\<lparr> Lu := lu', q_sqrt := q' \<rparr>"
proof -
  have same: "\<exists>lu' q'. self = self\<lparr> Lu := lu', q_sqrt := q' \<rparr>"
    by (rule exI[of _ "Lu self"], rule exI[of _ "q_sqrt self"]) simp
  show ?thesis
  proof (cases "kernel self (data (inducing_points self)) None")
    case (Inl e)
    then show ?thesis using same by (simp add: SparseGP_forward_def Let_def)
  next
    case kz: (Inr kz)
    show ?thesis
    proof (cases "kernel self X None")
      case (Inl e)
      then show ?thesis using same kz by (simp add: SparseGP_forward_def Let_def)
    next
      case kx: (Inr kx)
      show ?thesis
      proof (cases "kernel self X (Some (data (inducing_points self)))")
        case (Inl e)
        then show ?thesis using same kz kx by (simp add: SparseGP_forward_def Let_def)
      next
        case kxz: (Inr Kfu)
        obtain r s where cs: "conditioning self (length X) (add_jitter (2 / 10 ^ 6) kz)
                                 (add_jitter (2 / 10 ^ 6) kx) Kfu = (r, s)"
          by (cases "conditioning self (length X) (add_jitter (2 / 10 ^ 6) kz)
                                 (add_jitter (2 / 10 ^ 6) kx) Kfu") auto
        have s: "\<exists>lu' q'. s = self\<lparr> Lu := lu', q_sqrt := q' \<rparr>"
          using conditioning_state[of self "length X" "add_jitter (2 / 10 ^ 6) kz"
              "add_jitter (2 / 10 ^ 6) kx" Kfu] cs by simp
        have "snd (SparseGP_forward self X rps) = s"
          using kz kx kxz cs unfolding SparseGP_forward_def Let_def
          by (simp split: sum.splits prod.splits option.splits)
        then show ?thesis using s by simp
      qed
    qed
  qed
qed

section \<open>Shape of the packed factor and freezing\<close>




text \<open>
  Claim C8 against the code.  \<^verbatim>\<open>if self.log_layer_noise:\<close> asks for the truth value
  of the noise tensor: with two output dimensions the call raises after it has frozen
  \<^verbatim>\<open>q_mu\<close> and \<^verbatim>\<open>q_sqrt_tri\<close>, and with one output dimension and the noise 0 it
  returns and leaves the noise trainable; a noise that is not zero is frozen.
\<close>

theorem freeze_posterior_noise_defect:
  "fst (freeze_posterior (VIPLayer_init g K in_dim 2 add_prior (Some v) qs qm mf))
     = Some AmbiguousBool
   \<and> log_layer_noise (snd (freeze_posterior (VIPLayer_init g K in_dim 2 add_prior (Some v) qs qm mf)))
     = Some \<lparr> data = [v, v], requires_grad = True \<rparr>
   \<and> fst (freeze_posterior (VIPLayer_init g K in_dim 1 add_prior (Some 0) qs qm mf)) = None
   \<and> log_layer_noise (snd (freeze_posterior (VIPLayer_init g K in_dim 1 add_prior (Some 0) qs qm mf)))
     = Some \<lparr> data = [0], requires_grad = True \<rparr>
   \<and> log_layer_noise (snd (freeze_posterior (VIPLayer_init g K in_dim 1 add_prior (Some 1) qs qm mf)))
     = Some \<lparr> data = [1], requires_grad = False \<rparr>"
  by (simp add: freeze_posterior_def VIPLayer_init_def tensor_bool_def Let_def eval_nat_numeral)

section \<open>The forward passes of the inducing layers\<close>

lemma conditioning_success:
  assumes "conditioning self N Ku Kf Kfu = (Inr (mean, K), s)"
  shows "\<exists>lu q. cholesky_batch (add_jitter (1 / 10 ^ 4) Ku) = Inr lu
           \<and> bcompat (length (whitened lu Kfu)) (output_dim self)
           \<and> unpack (num_inducing self) (output_dim self) (data (q_sqrt_tri self)) = Inr q
           \<and> s = self\<lparr> Lu := Some lu, q_sqrt := Some q \<rparr>
           \<and> mean = cond_mean (whitened lu Kfu) (data (q_mu self)) (num_inducing self) N
                      (bdim (length (whitened lu Kfu)) (output_dim self))
           \<and> K = cond_var (whitened lu Kfu)
                    (cond_SK q Ku (num_inducing self)
                       (bdim (length (whitened lu Kfu)) (output_dim self)))
                    Kf (num_inducing self) N (bdim (length (whitened lu Kfu)) (output_dim self))"
proof (cases "cholesky_batch (add_jitter (1 / 10 ^ 4) Ku)")
  case (Inl e)
  then show ?thesis using assms by (simp add: conditioning_def)
next
  case c: (Inr lu)
  show ?thesis
  proof (cases "bcompat (length (whitened lu Kfu)) (output_dim self)")
    case False
    then show ?thesis using assms c by (simp add: conditioning_def Let_def)
  next
    case True
    show ?thesis
    proof (cases "unpack (num_inducing self) (output_dim self) (data (q_sqrt_tri self))")
      case (Inl e)
      then show ?thesis using assms c True by (simp add: conditioning_def Let_def)
    next
      case (Inr q)
      then have "s = self\<lparr> Lu := Some lu, q_sqrt := Some q \<rparr>"
        and "mean = cond_mean (whitened lu Kfu) (data (q_mu self)) (num_inducing self) N
                      (bdim (length (whitened lu Kfu)) (output_dim self))"
        and "K = cond_var (whitened lu Kfu)
                    (cond_SK q Ku (num_inducing self)
                       (bdim (length (whitened lu Kfu)) (output_dim self)))
                    Kf (num_inducing self) N (bdim (length (whitened lu Kfu)) (output_dim self))"
        using assms c True by (simp_all add: conditioning_def Let_def)
      then show ?thesis using c True Inr by (simp del: One_nat_def)
    qed
  qed
qed

lemma length_cholesky_batch: "cholesky_batch As = Inr Ls \<Longrightarrow> length Ls = length As"
  by (induction As arbitrary: Ls) (auto split: sum.splits)

lemma length_add_jitter: "length (add_jitter eps K) = length K"
  by (simp add: add_jitter_def)


lemma length_kernel: "kernel self x1 x2 = Inr k \<Longrightarrow> length k = 1"
  by (auto simp: kernel_def Let_def split: if_splits)

lemma SparseGP_forward_success:
  assumes "SparseGP_forward self X rps = (Inr (mu, var, smp), s)"
  shows "\<exists>kz kx Kfu mean K.
           kernel self (data (inducing_points self)) None = Inr kz
           \<and> kernel self X None = Inr kx
           \<and> kernel self X (Some (data (inducing_points self))) = Inr Kfu
           \<and> conditioning self (length X) (add_jitter (2 / 10 ^ 6) kz)
                 (add_jitter (2 / 10 ^ 6) kx) Kfu = (Inr (mean, K), s)
           \<and> (case log_layer_noise self of
                 None \<Rightarrow> var = K
               | Some p \<Rightarrow> bcompat (length X) (length (data p))
                   \<and> var = add_noise (Some p) K (length K) (bdim (length X) (length (data p))))"
proof (cases "kernel self (data (inducing_points self)) None")
  case (Inl e)
  then show ?thesis using assms by (simp add: SparseGP_forward_def Let_def)
next
  case kz: (Inr kz)
  show ?thesis
  proof (cases "kernel self X None")
    case (Inl e)
    then show ?thesis using assms kz by (simp add: SparseGP_forward_def Let_def)
  next
    case kx: (Inr kx)
    show ?thesis
    proof (cases "kernel self X (Some (data (inducing_points self)))")
      case (Inl e)
      then show ?thesis using assms kz kx by (simp add: SparseGP_forward_def Let_def)
    next
      case kxz: (Inr Kfu)
      obtain r s' where cs: "conditioning self (length X) (add_jitter (2 / 10 ^ 6) kz)
                                 (add_jitter (2 / 10 ^ 6) kx) Kfu = (r, s')"
        by (cases "conditioning self (length X) (add_jitter (2 / 10 ^ 6) kz)
                                 (add_jitter (2 / 10 ^ 6) kx) Kfu") auto
      show ?thesis
      proof (cases r)
        case (Inl e)
        then show ?thesis using assms kz kx kxz cs by (simp add: SparseGP_forward_def Let_def)
      next
        case (Inr mk)
        obtain mean K where mk: "mk = (mean, K)" by (cases mk) auto
        have "s' = s \<and> (case log_layer_noise self of
                 None \<Rightarrow> var = K
               | Some p \<Rightarrow> bcompat (length X) (length (data p))
                   \<and> var = add_noise (Some p) K (length K) (bdim (length X) (length (data p))))"
          using assms kz kx kxz cs Inr mk unfolding SparseGP_forward_def Let_def
          by (simp split: option.splits if_splits sum.splits)
        then show ?thesis using kz kx kxz cs Inr mk by simp
      qed
    qed
  qed
qed

lemma VIPLayerInducing_forward_success:
  assumes "VIPLayerInducing_forward self X rps = (Inr (mu, var, smp), s)"
  shows "\<exists>g mean K.
           generative_function self = Some g
           \<and> dim1 (sample g (X @ data (inducing_points self))) = length X + num_inducing self
           \<and> conditioning self (length X)
                 (empirical_Ku (sample g (X @ data (inducing_points self))) (length X) (num_inducing self))
                 (empirical_Kf (sample g (X @ data (inducing_points self))) (length X))
                 (empirical_Kfu (sample g (X @ data (inducing_points self))) (length X) (num_inducing self))
               = (Inr (mean, K), s)
           \<and> var = add_noise_rows (log_layer_noise self) K (length K) (length X)"
proof (cases "generative_function self")
  case None
  then show ?thesis using assms by (simp add: VIPLayerInducing_forward_def)
next
  case (Some g)
  show ?thesis
  proof (cases "cat_rows X (data (inducing_points self))")
    case (Inl e)
    then show ?thesis using assms Some by (simp add: VIPLayerInducing_forward_def)
  next
    case cat: (Inr XZ)
    then have XZ: "XZ = X @ data (inducing_points self)"
      by (auto simp: cat_rows_def split: if_splits)
    let ?f = "sample g XZ" and ?N = "length X" and ?M = "num_inducing self"
    show ?thesis
    proof (cases "dim1 ?f \<noteq> ?N + ?M")
      case True
      then show ?thesis using assms Some cat by (simp add: VIPLayerInducing_forward_def Let_def)
    next
      case rows: False
      show ?thesis
      proof (cases "phi_divisor (length ?f)")
        case (Inl e)
        then show ?thesis using assms Some cat rows
          by (simp add: VIPLayerInducing_forward_def Let_def)
      next
        case (Inr c)
        obtain r s' where cs: "conditioning self ?N (empirical_Ku ?f ?N ?M) (empirical_Kf ?f ?N)
                                 (empirical_Kfu ?f ?N ?M) = (r, s')"
          by (cases "conditioning self ?N (empirical_Ku ?f ?N ?M) (empirical_Kf ?f ?N)
                       (empirical_Kfu ?f ?N ?M)") auto
        show ?thesis
        proof (cases r)
          case (Inl e)
          then show ?thesis using assms Some cat rows Inr cs
            by (simp add: VIPLayerInducing_forward_def Let_def)
        next
          case r: (Inr mk)
          obtain mean K where mk: "mk = (mean, K)" by (cases mk) auto
          have "s' = s \<and> var = add_noise_rows (log_layer_noise self) K (length K) ?N"
            using assms Some cat rows Inr cs r mk unfolding VIPLayerInducing_forward_def Let_def
            by (simp split: sum.splits)
          then show ?thesis using Some rows cs r mk XZ by simp
        qed
      qed
    qed
  qed
qed

section \<open>The claims about KL and the generative function\<close>

lemma unpack_shape: "unpack K D tri = Inr q \<Longrightarrow> length tri = K * (K + 1) div 2"
  by (auto simp: unpack_def is_mat_def length_tril_indices split: if_splits)

lemma diag_index_ok:
  "length tri = K * (K + 1) div 2 \<Longrightarrow> list_all (\<lambda>i. i < length tri) (diag_indexes K)"
  using diag_indexes_in_range[of K] by simp

lemma SparseGP_KL_attribute_error:
  assumes gf: "generative_function self = None"
    and ap: "add_prior_regularization self"
    and tri: "length (data (q_sqrt_tri self)) = num_inducing self * (num_inducing self + 1) div 2"
    and lu: "Lu self = Some lu" and q: "q_sqrt self = Some qs"
    and bc: "bcompat (length lu) (length qs)"
  shows "SparseGP_KL self = Inl AttributeError"
  using diag_index_ok[OF tri] gf ap lu q bc
  unfolding SparseGP_KL_def Let_def by simp

lemma SparseGP_KL_no_value:
  assumes gf: "generative_function self = None" and ap: "add_prior_regularization self"
  shows "SparseGP_KL self \<noteq> Inr v"
  using gf ap unfolding SparseGP_KL_def Let_def
  by (simp split: option.splits)

text \<open>
  Claim C9.  \<^verbatim>\<open>SparseGP.__init__\<close> leaves the instance without a
  \<^verbatim>\<open>generative_function\<close>, and no method of the layer assigns one.  On such a state
  \<^verbatim>\<open>freeze_prior\<close> raises AttributeError; \<^verbatim>\<open>KL\<close> returns no value when the prior
  regularisation is on, and after a \<^verbatim>\<open>forward\<close> that returned it raises AttributeError
  (on a new instance it raises it already for \<^verbatim>\<open>Lu\<close>).
\<close>

theorem SparseGP_drops_generative_function:
  "generative_function (SparseGP_init g Z in_dim D add_prior log_noise qs qm mf) = None
   \<and> SparseGP_KL (SparseGP_init g Z in_dim D add_prior log_noise qs qm mf) = Inl AttributeError
   \<and> (generative_function self = None \<longrightarrow>
        freeze_prior self = (Some AttributeError, self)
        \<and> generative_function (snd (SparseGP_forward self X rps)) = None
        \<and> generative_function (snd (freeze_posterior self)) = None
        \<and> (add_prior_regularization self \<longrightarrow>
             (\<forall>v. SparseGP_KL self \<noteq> Inr v)
             \<and> (\<forall>r s. SparseGP_forward self X rps = (Inr r, s) \<longrightarrow>
                    SparseGP_KL s = Inl AttributeError
                    \<and> freeze_prior s = (Some AttributeError, s))))"
proof (intro conjI impI allI)
  let ?init = "SparseGP_init g Z in_dim D add_prior log_noise qs qm mf"
  show "generative_function ?init = None" by (simp add: SparseGP_init_def)
  have "length (data (q_sqrt_tri ?init)) = num_inducing ?init * (num_inducing ?init + 1) div 2"
    using initial_q_sqrt_tri_shape[of "length Z" D qs]
    by (simp add: SparseGP_init_def is_mat_def)
  from diag_index_ok[OF this] show "SparseGP_KL ?init = Inl AttributeError"
    unfolding SparseGP_KL_def Let_def by (simp add: SparseGP_init_def)
next
  assume gf: "generative_function self = None"
  show "freeze_prior self = (Some AttributeError, self)"
    using gf by (simp add: freeze_prior_def)
  show "generative_function (snd (SparseGP_forward self X rps)) = None"
    using SparseGP_forward_state[of self X rps] gf by auto
  show "generative_function (snd (freeze_posterior self)) = None"
    using gf by (simp add: freeze_posterior_def Let_def split: option.splits sum.splits)
next
  fix v assume "generative_function self = None" "add_prior_regularization self"
  then show "SparseGP_KL self \<noteq> Inr v" by (rule SparseGP_KL_no_value)
next
  fix r s
  assume gf: "generative_function self = None" and ap: "add_prior_regularization self"
    and fw: "SparseGP_forward self X rps = (Inr r, s)"
  obtain mu var smp where r: "r = (mu, var, smp)" by (cases r) auto
  from SparseGP_forward_success[OF fw[unfolded r]] obtain kz kx Kfu mean K where
    kz: "kernel self (data (inducing_points self)) None = Inr kz"
    and c: "conditioning self (length X) (add_jitter (2 / 10 ^ 6) kz)
                 (add_jitter (2 / 10 ^ 6) kx) Kfu = (Inr (mean, K), s)"
    by blast
  from conditioning_success[OF c] obtain lu q where
    ch: "cholesky_batch (add_jitter (1 / 10 ^ 4) (add_jitter (2 / 10 ^ 6) kz)) = Inr lu"
    and u: "unpack (num_inducing self) (output_dim self) (data (q_sqrt_tri self)) = Inr q"
    and s: "s = self\<lparr> Lu := Some lu, q_sqrt := Some q \<rparr>"
    by blast
  have "length lu = 1"
    using length_cholesky_batch[OF ch] length_kernel[OF kz] by (simp add: length_add_jitter)
  then have bc: "bcompat (length lu) (length q)" by (simp add: bcompat_def)
  show "SparseGP_KL s = Inl AttributeError"
    by (rule SparseGP_KL_attribute_error[where lu = lu and qs = q])
       (use gf ap unpack_shape[OF u] bc in \<open>simp_all add: s\<close>)
  show "freeze_prior s = (Some AttributeError, s)"
    using gf by (simp add: freeze_prior_def s)
qed

lemma VIPLayerInducing_KL_frame:
  assumes "q_sqrt_tri a = q_sqrt_tri b" "num_inducing a = num_inducing b"
    "output_dim a = output_dim b" "Lu a = Lu b" "q_sqrt a = q_sqrt b" "q_mu a = q_mu b"
    "add_prior_regularization a = add_prior_regularization b"
    "generative_function a = generative_function b"
  shows "VIPLayerInducing_KL a = VIPLayerInducing_KL b"
  unfolding VIPLayerInducing_KL_def assms by (rule refl)

text \<open>
  Claim C7.  On a new \<^verbatim>\<open>VIPLayerInducing\<close> the method \<^verbatim>\<open>KL\<close> raises AttributeError.
  Its result does not change with the attributes other than the parameters and the cached
  \<^verbatim>\<open>Lu\<close> and \<^verbatim>\<open>q_sqrt\<close>.  A \<^verbatim>\<open>forward\<close> that returns leaves the state with
  \<^verbatim>\<open>Lu\<close> the Cholesky factor of that call's jittered \<^verbatim>\<open>Ku\<close> and \<^verbatim>\<open>q_sqrt\<close> the
  unpacked factor, whatever was cached before, and \<^verbatim>\<open>KL\<close> is computed from these.
\<close>

theorem VIPLayerInducing_KL_reads_cache:
  "VIPLayerInducing_KL (VIPLayerInducing_init g Z in_dim D add_prior log_noise qs qm mf)
     = Inl AttributeError
   \<and> VIPLayerInducing_KL
        (self\<lparr> input_dim := i', freeze := fr', mean_function := mf', log_layer_noise := ln',
               inducing_points := Z' \<rparr>)
      = VIPLayerInducing_KL self
   \<and> (\<forall>r s. VIPLayerInducing_forward self X rps = (Inr r, s) \<longrightarrow>
         (\<exists>h lu q.
            generative_function self = Some h
            \<and> cholesky_batch (add_jitter (1 / 10 ^ 4)
                  (empirical_Ku (sample h (X @ data (inducing_points self))) (length X)
                     (num_inducing self))) = Inr lu
            \<and> unpack (num_inducing self) (output_dim self) (data (q_sqrt_tri self)) = Inr q
            \<and> s = self\<lparr> Lu := Some lu, q_sqrt := Some q \<rparr>
            \<and> VIPLayerInducing_KL s
                = VIPLayerInducing_KL (self\<lparr> Lu := Some lu, q_sqrt := Some q \<rparr>)))"
proof (intro conjI allI impI)
  let ?init = "VIPLayerInducing_init g Z in_dim D add_prior log_noise qs qm mf"
  have "length (data (q_sqrt_tri ?init)) = num_inducing ?init * (num_inducing ?init + 1) div 2"
    using initial_q_sqrt_tri_shape[of "length Z" D qs]
    by (simp add: VIPLayerInducing_init_def is_mat_def)
  from diag_index_ok[OF this] show "VIPLayerInducing_KL ?init = Inl AttributeError"
    unfolding VIPLayerInducing_KL_def Let_def by (simp add: VIPLayerInducing_init_def)
next
  show "VIPLayerInducing_KL
        (self\<lparr> input_dim := i', freeze := fr', mean_function := mf', log_layer_noise := ln',
               inducing_points := Z' \<rparr>)
      = VIPLayerInducing_KL self"
    by (rule VIPLayerInducing_KL_frame) simp_all
next
  fix r s assume fw: "VIPLayerInducing_forward self X rps = (Inr r, s)"
  obtain mu var smp where r: "r = (mu, var, smp)" by (cases r) auto
  from VIPLayerInducing_forward_success[OF fw[unfolded r]] obtain h mean K where
    h: "generative_function self = Some h"
    and c: "conditioning self (length X)
                 (empirical_Ku (sample h (X @ data (inducing_points self))) (length X) (num_inducing self))
                 (empirical_Kf (sample h (X @ data (inducing_points self))) (length X))
                 (empirical_Kfu (sample h (X @ data (inducing_points self))) (length X) (num_inducing self))
               = (Inr (mean, K), s)"
    by blast
  from conditioning_success[OF c] obtain lu q where
    "cholesky_batch (add_jitter (1 / 10 ^ 4)
        (empirical_Ku (sample h (X @ data (inducing_points self))) (length X)
           (num_inducing self))) = Inr lu"
    "unpack (num_inducing self) (output_dim self) (data (q_sqrt_tri self)) = Inr q"
    "s = self\<lparr> Lu := Some lu, q_sqrt := Some q \<rparr>"
    by blast
  then show "\<exists>h lu q.
            generative_function self = Some h
            \<and> cholesky_batch (add_jitter (1 / 10 ^ 4)
                  (empirical_Ku (sample h (X @ data (inducing_points self))) (length X)
                     (num_inducing self))) = Inr lu
            \<and> unpack (num_inducing self) (output_dim self) (data (q_sqrt_tri self)) = Inr q
            \<and> s = self\<lparr> Lu := Some lu, q_sqrt := Some q \<rparr>
            \<and> VIPLayerInducing_KL s
                = VIPLayerInducing_KL (self\<lparr> Lu := Some lu, q_sqrt := Some q \<rparr>)"
    using h by blast
qed

text \<open>
  The texts of \<^verbatim>\<open>SparseGP.KL\<close> and \<^verbatim>\<open>VIPLayerInducing.KL\<close> compute the same on
  states that agree on what they read, the generative function included.
\<close>

lemma KL_texts_agree:
  assumes "q_sqrt_tri sgp = q_sqrt_tri ind" "num_inducing sgp = num_inducing ind"
    "output_dim sgp = output_dim ind" "Lu sgp = Lu ind" "q_sqrt sgp = q_sqrt ind"
    "q_mu sgp = q_mu ind"
    "add_prior_regularization sgp = add_prior_regularization ind"
    "generative_function sgp = generative_function ind"
  shows "SparseGP_KL sgp = VIPLayerInducing_KL ind"
  unfolding SparseGP_KL_def VIPLayerInducing_KL_def assms by (rule refl)

section \<open>The conditional variance\<close>
















section \<open>Evaluation at the concrete inducing layers\<close>

lemma ex_ind_fields:
  "generative_function ex_ind = Some (ex_genf ex_F 0)"
  "num_inducing ex_ind = 2" "output_dim ex_ind = Suc 0"
  "data (q_sqrt_tri ex_ind) = [[1], [1], [1]]"
  "data (q_mu ex_ind) = [[0], [0]]"
  "data (inducing_points ex_ind) = [[1], [2]]"
  "log_layer_noise ex_ind = None" "mean_function ex_ind = None"
  by (simp_all add: ex_ind_def VIPLayerInducing_init_def eval_nat_numeral)

lemma ex_F_dims: "length ex_F = 2" "dim1 ex_F = 3" "dim2 ex_F = Suc 0"
  by (simp_all add: ex_F_def dim1_def dim2_def)

lemma ex_F_centred: "centred ex_F 1 = ex_F"
  by (simp add: centred_def sample_mean_def ex_F_def dim1_def dim2_def eval_nat_numeral)

lemma ex_F_cov: "joint_cov ex_F 1 = [[[2], [2], [0]], [[2], [2], [0]], [[0], [0], [0]]]"
  unfolding joint_cov_def Let_def ex_F_centred ex_F_dims
  by (simp add: ex_F_def eval_nat_numeral)

lemma ex_Ku: "empirical_Ku ex_F (Suc 0) 2 = [[[2 + 2 / 10 ^ 6, 0], [0, 2 / 10 ^ 6]]]"
  unfolding empirical_Ku_def ex_F_dims
  by (simp add: ex_F_cov add_jitter_def block_def eval_nat_numeral)

lemma ex_Kf: "empirical_Kf ex_F (Suc 0) = [[[2 + 2 / 10 ^ 6]]]"
  unfolding empirical_Kf_def ex_F_dims
  by (simp add: ex_F_cov add_jitter_def block_def eval_nat_numeral)

lemma ex_Kfu: "empirical_Kfu ex_F (Suc 0) 2 = [[[2, 0]]]"
  unfolding empirical_Kfu_def ex_F_dims
  by (simp add: ex_F_cov block_def eval_nat_numeral)

lemma ex_chol:
  "cholesky_batch (add_jitter (1 / 10 ^ 4) [[[2 + 2 / 10 ^ 6, 0], [0, 2 / 10 ^ 6]]])
     = Inr [[[sqrt (2 + 102 / 10 ^ 6), 0], [0, sqrt (102 / 10 ^ 6)]]]"
  by (simp add: add_jitter_def cholesky_def eval_nat_numeral Let_def)

lemma ex_whitened:
  "whitened [[[sqrt (2 + 102 / 10 ^ 6), 0], [0, sqrt (102 / 10 ^ 6)]]] [[[2, 0]]]
     = [[[2 / (2 + 102 / 10 ^ 6), 0]]]"
  by (simp add: whitened_def solve_triangular_def tri_solve_def mat_transpose_def dim1_def
      eval_nat_numeral Let_def)

lemma ex_unpack: "unpack 2 (Suc 0) [[1], [1], [1]] = Inr [[[1], [0]], [[1], [1]]]"
  by (rule unpack_2)

lemma ex_cond_var:
  "cond_var [[[2 / (2 + 102 / 10 ^ 6), 0]]]
     (cond_SK [[[1], [0]], [[1], [1]]] [[[2 + 2 / 10 ^ 6, 0], [0, 2 / 10 ^ 6]]] 2 (Suc 0))
     [[[2 + 2 / 10 ^ 6]]] 2 (Suc 0) (Suc 0) = [[ex_var]]"
  by (simp add: cond_var_def cond_SK_def Let_def bget_def ex_var_def eval_nat_numeral
      power2_eq_square)

lemma ex_cond_mean:
  "cond_mean [[[2 / (2 + 102 / 10 ^ 6), 0]]] [[0], [0]] 2 (Suc 0) (Suc 0) = [[0]]"
  by (simp add: cond_mean_def bget_def eval_nat_numeral)

lemma ex_conditioning:
  "conditioning ex_ind (Suc 0) (empirical_Ku ex_F (Suc 0) 2) (empirical_Kf ex_F (Suc 0))
     (empirical_Kfu ex_F (Suc 0) 2)
   = (Inr ([[0]], [[ex_var]]), ex_ind\<lparr> Lu := Some ex_lu, q_sqrt := Some [[[1], [0]], [[1], [1]]] \<rparr>)"
  unfolding conditioning_def ex_Ku ex_Kf ex_Kfu ex_chol ex_ind_fields Let_def
  by (simp add: ex_whitened[simplified] ex_unpack ex_cond_var[simplified]
      ex_cond_mean[simplified] bcompat_def bdim_def ex_lu_def)

lemma ex_ind_forward:
  "VIPLayerInducing_forward ex_ind [[0]] False
   = (Inr ([[0]], [[ex_var]], None),
      ex_ind\<lparr> Lu := Some ex_lu, q_sqrt := Some [[[1], [0]], [[1], [1]]] \<rparr>)"
proof -
  have cat: "cat_rows [[0]] [[1], [2]] = Inr [[0], [1], [2]]"
    by (simp add: cat_rows_def dim1_def)
  have div: "phi_divisor 2 = Inr 1" by (simp add: phi_divisor_def)
  show ?thesis
    unfolding VIPLayerInducing_forward_def ex_ind_fields
    by (simp add: cat ex_genf_def ex_F_dims div Let_def ex_conditioning[simplified]
        add_mean_function_def add_noise_rows_def ex_ind_fields)
qed

lemma tril_indices_1: "tril_indices (Suc 0) = [(0, 0)]"
  by (simp add: tril_indices_def)

lemma initial_tri_1: "initial_q_sqrt_tri (Suc 0) (Suc 0) v = [[v]]"
  by (simp add: initial_q_sqrt_tri_def tril_indices_1 Let_def)

lemma unpack_1: "unpack (Suc 0) (Suc 0) [[a]] = Inr [[[a]]]"
  by (simp add: unpack_def tril_indices_1 is_mat_def)


lemma ex_sgp_fields:
  "generative_function ex_sgp = None" "add_prior_regularization ex_sgp"
  "num_inducing ex_sgp = Suc 0" "output_dim ex_sgp = Suc 0"
  "data (q_sqrt_tri ex_sgp) = [[1]]" "data (q_mu ex_sgp) = [[0]]"
  "data (inducing_points ex_sgp) = [[0]]"
  "log_layer_noise ex_sgp = None" "mean_function ex_sgp = None"
  "data (log_lengthscale ex_sgp) = 0" "data (log_amplitude ex_sgp) = 0"
  by (simp_all add: ex_sgp_def SparseGP_init_def initial_tri_1)

lemma ex_kernel: "kernel ex_sgp [[0]] x2 = Inr [[[1]]]" if "x2 = None \<or> x2 = Some [[0]]"
  using that unfolding kernel_def ex_sgp_fields Let_def
  by (auto simp: dim1_def bcompat_def bdim_def bget_def)

lemma ex_sgp_conditioning:
  "conditioning ex_sgp (Suc 0) (add_jitter (2 / 10 ^ 6) [[[1]]]) (add_jitter (2 / 10 ^ 6) [[[1]]]) [[[1]]]
   = (Inr ([[0]], [[1 + 2 / 10 ^ 6 + (1 / (1 + 102 / 10 ^ 6))\<^sup>2 * (1 - (1 + 2 / 10 ^ 6))]]),
      ex_sgp\<lparr> Lu := Some [[[sqrt (1 + 102 / 10 ^ 6)]]], q_sqrt := Some [[[1]]] \<rparr>)"
proof -
  have ch: "cholesky_batch (add_jitter (1 / 10 ^ 4) (add_jitter (2 / 10 ^ 6) [[[1]]]))
            = Inr [[[sqrt (1 + 102 / 10 ^ 6)]]]"
    by (simp add: add_jitter_def cholesky_def Let_def)
  have wh: "whitened [[[sqrt (1 + 102 / 10 ^ 6)]]] [[[1]]] = [[[1 / (1 + 102 / 10 ^ 6)]]]"
    by (simp add: whitened_def solve_triangular_def tri_solve_def mat_transpose_def dim1_def Let_def)
  have cv: "cond_var [[[1 / (1 + 102 / 10 ^ 6)]]]
              (cond_SK [[[1]]] (add_jitter (2 / 10 ^ 6) [[[1]]]) (Suc 0) (Suc 0))
              (add_jitter (2 / 10 ^ 6) [[[1]]]) (Suc 0) (Suc 0) (Suc 0)
            = [[1 + 2 / 10 ^ 6 + (1 / (1 + 102 / 10 ^ 6))\<^sup>2 * (1 - (1 + 2 / 10 ^ 6))]]"
    by (simp add: cond_var_def cond_SK_def add_jitter_def Let_def bget_def power2_eq_square)
  have cm: "cond_mean [[[1 / (1 + 102 / 10 ^ 6)]]] [[0]] (Suc 0) (Suc 0) (Suc 0) = [[0]]"
    by (simp add: cond_mean_def bget_def)
  show ?thesis
    unfolding conditioning_def ch ex_sgp_fields Let_def
    by (simp add: wh[simplified] unpack_1 cv[simplified] cm[simplified] bcompat_def bdim_def)
qed

lemma ex_sgp_forward:
  "SparseGP_forward ex_sgp [[0]] False
   = (Inr ([[0]], [[1 + 2 / 10 ^ 6 + (1 / (1 + 102 / 10 ^ 6))\<^sup>2 * (1 - (1 + 2 / 10 ^ 6))]], None),
      ex_sgp\<lparr> Lu := Some [[[sqrt (1 + 102 / 10 ^ 6)]]], q_sqrt := Some [[[1]]] \<rparr>)"
  unfolding SparseGP_forward_def ex_sgp_fields Let_def
  by (simp add: ex_kernel ex_sgp_conditioning[simplified] ex_sgp_fields add_mean_function_def)


section \<open>The claims about the conditional variance\<close>





theorem VIPLayerInducing_KL_reads_cache_witness:
  "VIPLayerInducing_KL (VIPLayerInducing_init (ex_genf ex_F 0) [[1], [2]] 1 1 False None 1 0 None)
     = Inl AttributeError
   \<and> Lu (snd (VIPLayerInducing_forward ex_ind [[0]] False)) = Some ex_lu
   \<and> VIPLayerInducing_KL (snd (VIPLayerInducing_forward ex_ind [[0]] False))
       = VIPLayerInducing_KL (ex_ind\<lparr> Lu := Some ex_lu, q_sqrt := Some [[[1], [0]], [[1], [1]]] \<rparr>)"
proof -
  note t = VIPLayerInducing_KL_reads_cache[where g = "ex_genf ex_F 0" and Z = "[[1], [2]]"
      and in_dim = 1 and D = 1 and add_prior = False and log_noise = None and qs = 1 and qm = 0
      and mf = None and self = ex_ind and X = "[[0]]" and rps = False]
  have a: "VIPLayerInducing_KL (VIPLayerInducing_init (ex_genf ex_F 0) [[1], [2]] 1 1 False None 1 0 None)
     = Inl AttributeError"
    using t by blast
  from t[THEN conjunct2, THEN conjunct2, rule_format, OF ex_ind_forward]
  obtain h lu q where
    s: "ex_ind\<lparr> Lu := Some ex_lu, q_sqrt := Some [[[1], [0]], [[1], [1]]] \<rparr>
        = ex_ind\<lparr> Lu := Some lu, q_sqrt := Some q \<rparr>"
    and kl: "VIPLayerInducing_KL (ex_ind\<lparr> Lu := Some ex_lu, q_sqrt := Some [[[1], [0]], [[1], [1]]] \<rparr>)
             = VIPLayerInducing_KL (ex_ind\<lparr> Lu := Some lu, q_sqrt := Some q \<rparr>)"
    by blast
  show ?thesis using a by (simp add: ex_ind_forward)
qed

theorem SparseGP_drops_generative_function_witness:
  "generative_function ex_sgp = None
   \<and> fst (freeze_prior ex_sgp) = Some AttributeError
   \<and> SparseGP_KL ex_sgp = Inl AttributeError
   \<and> SparseGP_KL (ex_sgp\<lparr> Lu := Some [[[sqrt (1 + 102 / 10 ^ 6)]]], q_sqrt := Some [[[1]]] \<rparr>)
       = Inl AttributeError"
proof -
  note t = SparseGP_drops_generative_function[where g = "ex_genf [] 7" and Z = "[[0]]"
      and in_dim = 1 and D = 1 and add_prior = True and log_noise = None and qs = 1 and qm = 0
      and mf = None and self = ex_sgp and X = "[[0]]" and rps = False]
  have a: "generative_function ex_sgp = None" "SparseGP_KL ex_sgp = Inl AttributeError"
    using t by (simp_all add: ex_sgp_def)
  from t[THEN conjunct2, THEN conjunct2, rule_format, OF a(1)]
  have b: "freeze_prior ex_sgp = (Some AttributeError, ex_sgp)"
    and c: "add_prior_regularization ex_sgp \<longrightarrow>
              (\<forall>v. SparseGP_KL ex_sgp \<noteq> Inr v)
              \<and> (\<forall>r s. SparseGP_forward ex_sgp [[0]] False = (Inr r, s) \<longrightarrow>
                     SparseGP_KL s = Inl AttributeError
                     \<and> freeze_prior s = (Some AttributeError, s))"
    by blast+
  from c ex_sgp_fields(2) ex_sgp_forward
  have "SparseGP_KL (ex_sgp\<lparr> Lu := Some [[[sqrt (1 + 102 / 10 ^ 6)]]], q_sqrt := Some [[[1]]] \<rparr>)
          = Inl AttributeError"
    by blast
  then show ?thesis using a b by simp
qed

end
